theory Spec2Isabelle
  imports Complex_Main "HOL-Library.AList"
begin

section \<open>Python values, exceptions and the string functions the driver uses\<close>

text \<open>
  The driver in \<^verbatim>\<open>homeassistant/components/4heat/_4heat.py\<close> is dynamically typed. The
  values it handles after \<^verbatim>\<open>ast.literal_eval\<close> are strings, integers and lists of
  them; that is the value universe of this development. Other Python literals (bytes,
  tuples, dicts, floats) are not represented. A character of HOL stands for the code
  point of the same number: the text model covers the code points below 256.
\<close>

datatype pyval = PStr string | PInt int | PList "pyval list"

text \<open>
  Exceptions are values. \<open>EmptyAnswer\<close> is \<^verbatim>\<open>DeviceConnectionError("Got empty answer")\<close>,
  raised without a cause; \<open>DeviceConnectionError e\<close> and \<open>FourHeatCommandError e\<close> are the
  exceptions raised with \<^verbatim>\<open>raise ... from e\<close>, carrying their cause.
\<close>

datatype exn =
    OSError | SyntaxError | ValueError | TypeError | IndexError | KeyError
  | AssertionError | AttributeError | RecursionError
  | InvalidMessage | InvalidCommand
  | EmptyAnswer
  | DeviceConnectionError exn
  | FourHeatCommandError exn

fun is_DeviceConnectionError :: "exn \<Rightarrow> bool" where
  "is_DeviceConnectionError EmptyAnswer = True"
| "is_DeviceConnectionError (DeviceConnectionError e) = True"
| "is_DeviceConnectionError e = False"

text \<open>Truthiness, as \<^verbatim>\<open>bool(x)\<close> computes it; \<open>None\<close> is Python's \<^verbatim>\<open>None\<close>.\<close>

fun py_bool :: "pyval option \<Rightarrow> bool" where
  "py_bool None = False"
| "py_bool (Some (PStr s)) = (s \<noteq> [])"
| "py_bool (Some (PInt i)) = (i \<noteq> 0)"
| "py_bool (Some (PList xs)) = (xs \<noteq> [])"

text \<open>\<^verbatim>\<open>x[i]\<close> for a constant index \<open>i \<ge> 0\<close>, \<^verbatim>\<open>x[a:]\<close> and \<^verbatim>\<open>x[a:b]\<close> for constants
  \<open>0 \<le> a \<le> b\<close>, and iteration.\<close>

fun py_getitem :: "pyval \<Rightarrow> nat \<Rightarrow> exn + pyval" where
  "py_getitem (PStr s) i = (if i < length s then Inr (PStr [s ! i]) else Inl IndexError)"
| "py_getitem (PList xs) i = (if i < length xs then Inr (xs ! i) else Inl IndexError)"
| "py_getitem (PInt n) i = Inl TypeError"

fun py_slice_from :: "pyval \<Rightarrow> nat \<Rightarrow> exn + pyval" where
  "py_slice_from (PStr s) a = Inr (PStr (drop a s))"
| "py_slice_from (PList xs) a = Inr (PList (drop a xs))"
| "py_slice_from (PInt n) a = Inl TypeError"

fun py_slice :: "pyval \<Rightarrow> nat \<Rightarrow> nat \<Rightarrow> exn + pyval" where
  "py_slice (PStr s) a b = Inr (PStr (take (b - a) (drop a s)))"
| "py_slice (PList xs) a b = Inr (PList (take (b - a) (drop a xs)))"
| "py_slice (PInt n) a b = Inl TypeError"

fun py_iter :: "pyval \<Rightarrow> exn + pyval list" where
  "py_iter (PStr s) = Inr (map (\<lambda>c. PStr [c]) s)"
| "py_iter (PList xs) = Inr xs"
| "py_iter (PInt n) = Inl TypeError"

subsection \<open>\<^verbatim>\<open>str(int)\<close>, \<^verbatim>\<open>str.zfill\<close> and \<^verbatim>\<open>int(str)\<close>\<close>

definition digit_char :: "nat \<Rightarrow> char" where
  "digit_char d = char_of (48 + d)"

definition is_digit :: "char \<Rightarrow> bool" where
  "is_digit c = (48 \<le> (of_char c :: nat) \<and> (of_char c :: nat) \<le> 57)"

definition digit_val :: "char \<Rightarrow> nat" where
  "digit_val c = (of_char c :: nat) - 48"

fun digits :: "nat \<Rightarrow> string" where
  "digits n = (if n < 10 then [digit_char n] else digits (n div 10) @ [digit_char (n mod 10)])"

declare digits.simps [simp del]

text \<open>\<^verbatim>\<open>str(i)\<close>: the decimal digits, with a minus sign for a negative number. The
  interpreter's configurable limit on the number of digits is not modelled.\<close>

definition py_str :: "int \<Rightarrow> string" where
  "py_str i = (if i < 0 then CHR ''-'' # digits (nat (- i)) else digits (nat i))"

text \<open>\<^verbatim>\<open>s.zfill(w)\<close>: pads with zeros on the left up to width \<open>w\<close>, after a leading sign.\<close>

definition zfill :: "nat \<Rightarrow> string \<Rightarrow> string" where
  "zfill w s =
     (if w \<le> length s then s
      else (case s of
              [] \<Rightarrow> replicate w (CHR ''0'')
            | c # r \<Rightarrow>
                if c = CHR ''+'' \<or> c = CHR ''-''
                then c # replicate (w - length s) (CHR ''0'') @ r
                else replicate (w - length s) (CHR ''0'') @ s))"

text \<open>
  \<^verbatim>\<open>int(s)\<close> in base 10. CPython turns the spaces of a string that is not pure ASCII
  into blanks (below code point 256 these are \<open>0x85\<close> and \<open>0xA0\<close>) and then skips, at
  both ends, the characters of C's \<^verbatim>\<open>isspace\<close>: \<open>0x09\<close> to \<open>0x0D\<close> and \<open>0x20\<close>. The
  separators \<open>0x1C\<close> to \<open>0x1F\<close> are not skipped. An optional sign follows, then decimal
  digits in which single underscores may separate digits. Anything else raises
  \<^verbatim>\<open>ValueError\<close>.
\<close>

definition is_space :: "char \<Rightarrow> bool" where
  "is_space c =
     (let n = (of_char c :: nat) in (9 \<le> n \<and> n \<le> 13) \<or> n = 32 \<or> n = 133 \<or> n = 160)"

definition strip :: "string \<Rightarrow> string" where
  "strip s = rev (dropWhile is_space (rev (dropWhile is_space s)))"

fun digits_ok :: "string \<Rightarrow> bool" where
  "digits_ok [] = False"
| "digits_ok [c] = is_digit c"
| "digits_ok (c # d # r) =
     (is_digit c \<and> (if d = CHR ''_'' then digits_ok r else digits_ok (d # r)))"

definition decimal :: "string \<Rightarrow> nat" where
  "decimal s = foldl (\<lambda>a c. 10 * a + digit_val c) 0 s"

definition unsigned_of_str :: "string \<Rightarrow> exn + int" where
  "unsigned_of_str body =
     (if digits_ok body then Inr (int (decimal (filter (\<lambda>c. c \<noteq> CHR ''_'') body)))
      else Inl ValueError)"

definition int_of_str :: "string \<Rightarrow> exn + int" where
  "int_of_str s =
     (case strip s of
        [] \<Rightarrow> Inl ValueError
      | c # r \<Rightarrow>
          if c = CHR ''-'' then (case unsigned_of_str r of Inl e \<Rightarrow> Inl e | Inr v \<Rightarrow> Inr (- v))
          else if c = CHR ''+'' then unsigned_of_str r
          else unsigned_of_str (c # r))"

section \<open>The response parser of \<^verbatim>\<open>send_and_receive\<close>\<close>

text \<open>One element of \<^verbatim>\<open>data["sensors"]\<close>:
  \<^verbatim>\<open>{"id": sensor[1:6], "sensor_type": sensor[0], "value": int(sensor[7:])}\<close>.\<close>

record reading =
  rd_id :: string
  rd_sensor_type :: string
  rd_value :: int

text \<open>The dict \<^verbatim>\<open>data\<close> that \<^verbatim>\<open>send_and_receive\<close> returns.\<close>

record response =
  data_result :: pyval
  data_sensors :: "reading list"

text \<open>
  The loop \<^verbatim>\<open>for sensor in result[2:]: if len(sensor) > 6: data["sensors"].append({...})\<close>,
  with the list built so far as accumulator. An integer element has no \<^verbatim>\<open>len\<close>
  (\<^verbatim>\<open>TypeError\<close>); a list element of more than six items passes the length test and
  then fails in \<^verbatim>\<open>int(sensor[7:])\<close>, again with \<^verbatim>\<open>TypeError\<close>; a string
  element of more than six characters is decoded, and \<^verbatim>\<open>int\<close> may raise.
\<close>

fun sensor_loop :: "pyval list \<Rightarrow> reading list \<Rightarrow> exn + reading list" where
  "sensor_loop [] acc = Inr acc"
| "sensor_loop (PInt i # rest) acc = Inl TypeError"
| "sensor_loop (PList xs # rest) acc =
     (if 6 < length xs then Inl TypeError else sensor_loop rest acc)"
| "sensor_loop (PStr s # rest) acc =
     (if 6 < length s
      then (case int_of_str (drop 7 s) of
              Inl e \<Rightarrow> Inl e
            | Inr v \<Rightarrow>
                sensor_loop rest
                  (acc @ [\<lparr>rd_id = take 5 (drop 1 s), rd_sensor_type = [s ! 0], rd_value = v\<rparr>]))
      else sensor_loop rest acc)"

text \<open>
  The statements from \<^verbatim>\<open>result = literal_eval(result)\<close> to the end of the loop. The
  argument is the outcome of \<^verbatim>\<open>ast.literal_eval\<close> on the decoded text: the library
  function is not part of the repository, so its outcome (the exception it raises or the
  value it returns) is an input here.
\<close>

definition parse_result :: "exn + pyval \<Rightarrow> exn + response" where
  "parse_result ev =
     (case ev of
        Inl e \<Rightarrow> Inl e
      | Inr result \<Rightarrow>
          (case py_getitem result 0 of
             Inl e \<Rightarrow> Inl e
           | Inr r0 \<Rightarrow>
               (case py_slice_from result 2 of
                  Inl e \<Rightarrow> Inl e
                | Inr rest \<Rightarrow>
                    (case py_iter rest of
                       Inl e \<Rightarrow> Inl e
                     | Inr items \<Rightarrow>
                         (case sensor_loop items [] of
                            Inl e \<Rightarrow> Inl e
                          | Inr rs \<Rightarrow> Inr \<lparr>data_result = r0, data_sensors = rs\<rparr>)))))"

text \<open>The f-strings \<^verbatim>\<open>f"B{attr}{str(value).zfill(12)}"\<close> and
  \<^verbatim>\<open>f"I{sensor}{str(0).zfill(12)}"\<close>, with the type character as a parameter.\<close>

definition token :: "char \<Rightarrow> string \<Rightarrow> int \<Rightarrow> string" where
  "token c attr v = c # attr @ zfill 12 (py_str v)"

section \<open>Constants of the missing \<^verbatim>\<open>const.py\<close>\<close>

text \<open>
  Modelled from the spec: \<^verbatim>\<open>const.py\<close> is not among the sources. Section 6 of the
  specification gives the status literals (\<^verbatim>\<open>I\<close> info, \<^verbatim>\<open>O\<close> ok, \<^verbatim>\<open>E\<close> error),
  section 3 the logical command names, section 4.4 the recovery window of five seconds.
  \<^verbatim>\<open>INFO_QUERY\<close>, \<^verbatim>\<open>DEVICE_STATE_SENSOR\<close>, \<^verbatim>\<open>STATES_OFF\<close> and the command table
  \<^verbatim>\<open>CONF_MODES\<close> are not given there: they are parameters of the functions that use them.
\<close>

definition RESULT_INFO :: string where "RESULT_INFO = ''I''"
definition RESULT_OK :: string where "RESULT_OK = ''O''"
definition RESULT_ERROR :: string where "RESULT_ERROR = ''E''"

definition INFO_COMMAND :: string where "INFO_COMMAND = ''info''"
definition GET_COMMAND :: string where "GET_COMMAND = ''get''"
definition SET_COMMAND :: string where "SET_COMMAND = ''set''"
definition ON_COMMAND :: string where "ON_COMMAND = ''on''"
definition OFF_COMMAND :: string where "OFF_COMMAND = ''off''"
definition UNBLOCK_COMMAND :: string where "UNBLOCK_COMMAND = ''unblock''"

definition RETRY_UPDATE_SLEEP :: real where "RETRY_UPDATE_SLEEP = 5"

definition STATE_ON :: string where "STATE_ON = ''on''"
definition STATE_OFF :: string where "STATE_OFF = ''off''"

section \<open>The device object and the event loop\<close>

text \<open>A value of the dict \<^verbatim>\<open>self.sensors\<close>: the keys \<^verbatim>\<open>"sensor_type"\<close> and
  \<^verbatim>\<open>"value"\<close>, and the key \<^verbatim>\<open>"id"\<close> once \<^verbatim>\<open>dict.update(item)\<close> has copied it in.\<close>

record entry =
  sensor_type :: string
  sensor_value :: int
  sensor_id :: "string option"

text \<open>The dict \<^verbatim>\<open>self.fourheat\<close> that \<^verbatim>\<open>update_fourheat\<close> fills.\<close>

record fourheat_info =
  fh_model :: string
  fh_serial :: "string option"
  fh_manufacturer :: string

text \<open>
  The attributes of \<^verbatim>\<open>FourHeatDevice\<close> that the modelled methods read or write
  (\<open>priv_x\<close> is \<^verbatim>\<open>self._x\<close>); dicts are association lists in insertion order.
  Three more fields make the effects on the outside world explicit:
  \<^item> \<open>now\<close> is the clock of the event loop, in seconds;
  \<^item> \<open>lazy_tasks\<close> holds, for every \<^verbatim>\<open>_i_am_lazy\<close> task created with
    \<^verbatim>\<open>asyncio.create_task\<close> and not yet finished, the time at which its sleep ends;
  \<^item> \<open>exchanges\<close> logs every socket exchange begun: the time and the query.
\<close>

record device =
  commands :: "(string \<times> pyval list) list"
  fourheat :: "fourheat_info option"
  priv_settings :: "pyval option"
  sensors :: "(string \<times> entry) list option"
  initialized :: bool
  priv_last_error :: "exn option"
  priv_command_is_running :: "pyval option"
  now :: real
  lazy_tasks :: "real list"
  exchanges :: "(real \<times> pyval list) list"

text \<open>\<^verbatim>\<open>__init__\<close>, given \<^verbatim>\<open>CONF_MODES[self.mode]\<close>, on a fresh event loop.\<close>

definition new_device :: "(string \<times> pyval list) list \<Rightarrow> device" where
  "new_device table =
     \<lparr>commands = table, fourheat = None, priv_settings = None, sensors = None,
      initialized = False, priv_last_error = None,
      priv_command_is_running = Some (PStr []),
      now = 0, lazy_tasks = [], exchanges = []\<rparr>"

text \<open>The statement of \<^verbatim>\<open>_i_am_lazy\<close> that runs when its sleep is over.\<close>

definition i_am_lazy_wakeup :: "device \<Rightarrow> device" where
  "i_am_lazy_wakeup s = s\<lparr>priv_command_is_running := None\<rparr>"

text \<open>
  \<^verbatim>\<open>await asyncio.sleep(d)\<close> in the running coroutine: the clock advances by \<open>d\<close>, and
  the \<^verbatim>\<open>_i_am_lazy\<close> tasks whose sleep has ended by then run before the coroutine
  resumes.
\<close>

definition asyncio_sleep :: "real \<Rightarrow> device \<Rightarrow> device" where
  "asyncio_sleep d s =
     (let t = now s + d;
          due = filter (\<lambda>w. w \<le> t) (lazy_tasks s);
          s1 = s\<lparr>now := t, lazy_tasks := filter (\<lambda>w. \<not> w \<le> t) (lazy_tasks s)\<rparr>
      in fold (\<lambda>w. i_am_lazy_wakeup) due s1)"

text \<open>The loop \<^verbatim>\<open>while bool(self._command_is_running): await asyncio.sleep(1)\<close>. It
  need not end: \<open>None\<close> is the run that polls forever.\<close>

partial_function (option) wait_idle :: "device \<Rightarrow> device option" where
  "wait_idle s =
     (if py_bool (priv_command_is_running s) then wait_idle (asyncio_sleep 1 s) else Some s)"

declare wait_idle.simps [code]

text \<open>
  What the socket gives back in one exchange: \<open>Raises e\<close> when \<^verbatim>\<open>connect\<close>,
  \<^verbatim>\<open>send\<close>, \<^verbatim>\<open>recv\<close> or \<^verbatim>\<open>decode\<close> raises \<open>e\<close>; \<open>Recv t r\<close> when the decoded text is
  \<open>t\<close> and \<^verbatim>\<open>ast.literal_eval(t)\<close> has the outcome \<open>r\<close>.
\<close>

datatype exchange = Raises exn | Recv string "exn + pyval"

text \<open>The \<^verbatim>\<open>try\<close> statement of \<^verbatim>\<open>send_and_receive\<close> with its handler
  \<^verbatim>\<open>except Exception\<close>.\<close>

definition exchange_block :: "pyval list \<Rightarrow> exchange \<Rightarrow> device \<Rightarrow> (exn + response) \<times> device" where
  "exchange_block query x s =
     (let s1 = s\<lparr>priv_command_is_running := Some (PList query),
                 exchanges := exchanges s @ [(now s, query)]\<rparr>;
          body = (case x of
                    Raises e \<Rightarrow> Inl e
                  | Recv t r \<Rightarrow> if t \<noteq> [] then parse_result r else Inl EmptyAnswer)
      in case body of
           Inr data \<Rightarrow>
             (Inr data, s1\<lparr>priv_last_error := None, priv_command_is_running := None\<rparr>)
         | Inl err \<Rightarrow>
             (Inl (DeviceConnectionError err),
              s1\<lparr>priv_last_error := Some (DeviceConnectionError err),
                 lazy_tasks := lazy_tasks s1 @ [now s1 + RETRY_UPDATE_SLEEP]\<rparr>))"

definition send_and_receive ::
  "pyval list \<Rightarrow> exchange \<Rightarrow> device \<Rightarrow> ((exn + response) \<times> device) option" where
  "send_and_receive query x s =
     (case wait_idle s of None \<Rightarrow> None | Some s1 \<Rightarrow> Some (exchange_block query x s1))"

section \<open>The facade: attribute access and properties\<close>

text \<open>The property \<^verbatim>\<open>attributes\<close>.\<close>

definition attributes :: "device \<Rightarrow> (string \<times> entry) list option" where
  "attributes s = (if \<not> initialized s then None else sensors s)"

text \<open>
  \<^verbatim>\<open>__getattr__(attr)\<close>, which Python calls for a name that is no attribute of the
  object. Once initialised, for a name that is no sensor the message of the
  \<^verbatim>\<open>AttributeError\<close> is formatted from \<^verbatim>\<open>self.device.model\<close>: \<^verbatim>\<open>self.device\<close>
  enters \<^verbatim>\<open>__getattr__\<close> again, which yields an integer without \<^verbatim>\<open>model\<close> when a
  sensor is called \<^verbatim>\<open>device\<close> and recurses without end otherwise. \<^verbatim>\<open>x in None\<close> is a
  \<^verbatim>\<open>TypeError\<close>.
\<close>

definition py_getattr :: "device \<Rightarrow> string \<Rightarrow> exn + int option" where
  "py_getattr s attr =
     (if \<not> initialized s then Inr None
      else (case attributes s of
              None \<Rightarrow> Inl TypeError
            | Some m \<Rightarrow>
                (case map_of m attr of
                   Some e \<Rightarrow> Inr (Some (sensor_value e))
                 | None \<Rightarrow>
                     (case map_of m ''device'' of
                        Some e \<Rightarrow> Inl AttributeError
                      | None \<Rightarrow> Inl RecursionError))))"

definition info :: "device \<Rightarrow> string \<Rightarrow> exn + entry option" where
  "info s attr =
     (if \<not> initialized s then Inr None
      else (case sensors s of
              None \<Rightarrow> Inl TypeError
            | Some m \<Rightarrow> (case map_of m attr of None \<Rightarrow> Inl KeyError | Some e \<Rightarrow> Inr (Some e))))"

definition settings :: "device \<Rightarrow> pyval option" where
  "settings s = (if \<not> initialized s then None else priv_settings s)"

text \<open>The property \<^verbatim>\<open>status\<close>; its first two arguments are \<^verbatim>\<open>DEVICE_STATE_SENSOR\<close>
  (a sensor id, no attribute of the object) and \<^verbatim>\<open>STATES_OFF\<close>.\<close>

definition status :: "string \<Rightarrow> int option list \<Rightarrow> device \<Rightarrow> exn + string option" where
  "status device_state_sensor states_off s =
     (if \<not> initialized s then Inr None
      else (case py_getattr s device_state_sensor of
              Inl e \<Rightarrow> Inl e
            | Inr v \<Rightarrow> Inr (Some (if v \<notin> set states_off then STATE_ON else STATE_OFF))))"

definition model :: "device \<Rightarrow> exn + string option" where
  "model s =
     (if \<not> initialized s then Inr None
      else (case fourheat s of None \<Rightarrow> Inl TypeError | Some f \<Rightarrow> Inr (Some (fh_model f))))"

text \<open>\<^verbatim>\<open>x or None\<close> is \<^verbatim>\<open>None\<close> for \<^verbatim>\<open>None\<close> and for the empty string.\<close>

definition serial :: "device \<Rightarrow> exn + string option" where
  "serial s =
     (if \<not> initialized s then Inr None
      else (case fourheat s of
              None \<Rightarrow> Inl TypeError
            | Some f \<Rightarrow>
                (case fh_serial f of
                   None \<Rightarrow> Inr None
                 | Some v \<Rightarrow> if v \<noteq> [] then Inr (Some v) else Inr None)))"

definition manufacturer :: "device \<Rightarrow> exn + string option" where
  "manufacturer s =
     (if \<not> initialized s then Inr None
      else (case fourheat s of
              None \<Rightarrow> Inl AssertionError
            | Some f \<Rightarrow> if fh_manufacturer f \<noteq> [] then Inr (Some (fh_manufacturer f)) else Inr None))"

section \<open>\<^verbatim>\<open>async_send_command\<close>\<close>

text \<open>Sequencing of computations that may raise, and Python's short-circuit \<^verbatim>\<open>and\<close>.\<close>

definition bindE :: "exn + 'a \<Rightarrow> ('a \<Rightarrow> exn + 'b) \<Rightarrow> exn + 'b" where
  "bindE m f = (case m of Inl e \<Rightarrow> Inl e | Inr a \<Rightarrow> f a)"

definition andE :: "exn + bool \<Rightarrow> exn + bool \<Rightarrow> exn + bool" where
  "andE a b = (case a of Inl e \<Rightarrow> Inl e | Inr t \<Rightarrow> if t then b else Inr False)"

text \<open>\<^verbatim>\<open>int(x)\<close> on a value.\<close>

fun py_int :: "pyval \<Rightarrow> exn + int" where
  "py_int (PStr s) = int_of_str s"
| "py_int (PInt i) = Inr i"
| "py_int (PList xs) = Inl TypeError"

text \<open>\<^verbatim>\<open>result["sensors"][0]\<close>.\<close>

definition first_sensor :: "response \<Rightarrow> exn + reading" where
  "first_sensor result = (case data_sensors result of [] \<Rightarrow> Inl IndexError | r # rs \<Rightarrow> Inr r)"

text \<open>The value the function returns: the dict \<^verbatim>\<open>result\<close>, or \<^verbatim>\<open>True\<close>.\<close>

datatype cmd_result = Data response | PyTrue

text \<open>\<^verbatim>\<open>result == RESULT_ERROR\<close> in the \<^verbatim>\<open>info\<close> branch compares the dict that
  \<^verbatim>\<open>send_and_receive\<close> returned with a string: never equal.\<close>

definition dict_eq_str :: "response \<Rightarrow> string \<Rightarrow> bool" where
  "dict_eq_str result t = False"

text \<open>\<^verbatim>\<open>self.async_update_status()\<close>: the class defines no such method, so the name
  goes through \<^verbatim>\<open>__getattr__\<close>, and calling \<^verbatim>\<open>None\<close> or an integer is a
  \<^verbatim>\<open>TypeError\<close>.\<close>

definition async_update_status :: "device \<Rightarrow> exn + unit" where
  "async_update_status s =
     (case py_getattr s ''async_update_status'' of Inl e \<Rightarrow> Inl e | Inr v \<Rightarrow> Inl TypeError)"

text \<open>The two acknowledgement conditions, each a chain of \<^verbatim>\<open>and\<close>.\<close>

definition set_ack :: "string \<Rightarrow> pyval list \<Rightarrow> response \<Rightarrow> exn + bool" where
  "set_ack command query result =
     andE (Inr (command = SET_COMMAND))
    (andE (bindE (py_getitem (PList query) 0) (\<lambda>q0. Inr (data_result result = q0)))
    (andE (bindE (first_sensor result) (\<lambda>r.
           bindE (py_getitem (PList query) 2) (\<lambda>q2.
           bindE (py_slice q2 1 6) (\<lambda>i. Inr (PStr (rd_id r) = i)))))
    (andE (bindE (first_sensor result) (\<lambda>r.
           bindE (py_getitem (PList query) 2) (\<lambda>q2.
           bindE (py_slice_from q2 7) (\<lambda>t.
           bindE (py_int t) (\<lambda>v. Inr (rd_value r = v))))))
          (bindE (first_sensor result) (\<lambda>r. Inr (rd_sensor_type r = ''A''))))))"

definition control_ack :: "string \<Rightarrow> pyval list \<Rightarrow> response \<Rightarrow> exn + bool" where
  "control_ack command query result =
     andE (Inr (command \<in> set [ON_COMMAND, OFF_COMMAND, UNBLOCK_COMMAND]))
    (andE (bindE (py_getitem (PList query) 0) (\<lambda>q0. Inr (data_result result = q0)))
    (andE (bindE (first_sensor result) (\<lambda>r.
           bindE (py_getitem (PList query) 2) (\<lambda>q2.
           bindE (py_slice q2 1 6) (\<lambda>i. Inr (PStr (rd_id r) = i)))))
    (andE (bindE (first_sensor result) (\<lambda>r. Inr (rd_value r = 0)))
          (bindE (first_sensor result) (\<lambda>r. Inr (rd_sensor_type r = ''I''))))))"

text \<open>The statements after \<^verbatim>\<open>result = await self.send_and_receive(query)\<close> inside the
  \<^verbatim>\<open>try\<close>. \<open>Inr None\<close> of the first step means that the \<^verbatim>\<open>info\<close> branch did not
  return.\<close>

definition validate :: "string \<Rightarrow> pyval list \<Rightarrow> response \<Rightarrow> device \<Rightarrow> exn + cmd_result" where
  "validate command query result s =
     bindE (if command = INFO_COMMAND
            then (if dict_eq_str result RESULT_ERROR
                  then bindE (async_update_status s) (\<lambda>u. Inr None)
                  else Inr (Some (Data result)))
            else Inr None)
       (\<lambda>returned.
          case returned of
            Some r \<Rightarrow> Inr r
          | None \<Rightarrow>
              if command = GET_COMMAND then Inr (Data result)
              else bindE (set_ack command query result) (\<lambda>ok.
                   if ok then Inr PyTrue
                   else bindE (control_ack command query result) (\<lambda>ok.
                        if ok then Inr PyTrue else Inl InvalidMessage)))"

text \<open>The handler \<^verbatim>\<open>except DeviceConnectionError as err: raise FourHeatCommandError(...) from err\<close>.\<close>

definition except_DeviceConnectionError :: "exn + 'a \<Rightarrow> exn + 'a" where
  "except_DeviceConnectionError r =
     (case r of
        Inl e \<Rightarrow> if is_DeviceConnectionError e then Inl (FourHeatCommandError e) else Inl e
      | Inr v \<Rightarrow> Inr v)"

text \<open>\<^verbatim>\<open>arg\<close> is \<open>None\<close> when the caller leaves it out.\<close>

definition build_query :: "pyval list \<Rightarrow> pyval list option \<Rightarrow> pyval list" where
  "build_query base arg =
     (case arg of None \<Rightarrow> base | Some a \<Rightarrow> if a \<noteq> [] then base @ a else base)"

definition async_send_command ::
  "string \<Rightarrow> pyval list option \<Rightarrow> exchange \<Rightarrow> device \<Rightarrow> ((exn + cmd_result) \<times> device) option" where
  "async_send_command command arg x s =
     (case map_of (commands s) command of
        None \<Rightarrow> Some (Inl InvalidCommand, s)
      | Some base \<Rightarrow>
          (case send_and_receive (build_query base arg) x s of
             None \<Rightarrow> None
           | Some (r, s1) \<Rightarrow>
               Some (except_DeviceConnectionError
                       (bindE r (\<lambda>result. validate command (build_query base arg) result s1)),
                     s1)))"

section \<open>\<^verbatim>\<open>async_update_data\<close>, \<^verbatim>\<open>async_set_state\<close>, \<^verbatim>\<open>async_get_state\<close>\<close>

text \<open>
  The loop over \<^verbatim>\<open>result["sensors"]\<close> in \<^verbatim>\<open>async_update_data\<close>, on the dict
  \<^verbatim>\<open>self.sensors\<close>: an unseen id gets a new entry at the end, a known one is updated
  in place with \<^verbatim>\<open>dict.update(item)\<close>, which also copies the key \<^verbatim>\<open>"id"\<close>.
\<close>

fun merge_sensors :: "reading list \<Rightarrow> (string \<times> entry) list \<Rightarrow> (string \<times> entry) list" where
  "merge_sensors [] m = m"
| "merge_sensors (item # rest) m =
     (case map_of m (rd_id item) of
        None \<Rightarrow>
          merge_sensors rest
            (AList.update (rd_id item)
               \<lparr>sensor_type = rd_sensor_type item, sensor_value = rd_value item,
                sensor_id = None\<rparr> m)
      | Some e \<Rightarrow>
          merge_sensors rest
            (AList.update (rd_id item)
               \<lparr>sensor_type = rd_sensor_type item, sensor_value = rd_value item,
                sensor_id = Some (rd_id item)\<rparr> m))"

text \<open>The list \<^verbatim>\<open>error_query\<close>: one token \<^verbatim>\<open>f"I{sensor}{str(0).zfill(12)}"\<close> for each
  key of \<^verbatim>\<open>self.sensors\<close>, in the order of the dict.\<close>

definition error_query :: "(string \<times> entry) list \<Rightarrow> pyval list" where
  "error_query m = map (\<lambda>sensor. PStr (token (CHR ''I'') sensor 0)) (map fst m)"

text \<open>
  \<^verbatim>\<open>async_update_data\<close>. The first argument is \<^verbatim>\<open>INFO_QUERY\<close>; \<open>x1\<close> is the exchange
  of the \<^verbatim>\<open>info\<close> query and \<open>x2\<close> that of the \<^verbatim>\<open>get\<close> query, if one is sent. The
  condition of the \<^verbatim>\<open>elif\<close> is \<^verbatim>\<open>result["result"] == RESULT_INFO or RESULT_OK\<close>: when
  the comparison fails, its value is the string \<^verbatim>\<open>RESULT_OK\<close>, true when not empty.
  \<^verbatim>\<open>assert self.sensors\<close> fails for \<^verbatim>\<open>None\<close> and for the empty dict;
  \<^verbatim>\<open>raise self._last_error\<close> with \<^verbatim>\<open>None\<close> is a \<^verbatim>\<open>TypeError\<close>.
\<close>

definition async_update_data ::
  "pyval list \<Rightarrow> exchange \<Rightarrow> exchange \<Rightarrow> device \<Rightarrow> ((exn + unit) \<times> device) option" where
  "async_update_data info_query x1 x2 s =
     (case send_and_receive info_query x1 s of
        None \<Rightarrow> None
      | Some (Inl err, s1) \<Rightarrow>
          Some (if is_DeviceConnectionError err
                then (case priv_last_error s1 of None \<Rightarrow> Inl TypeError | Some e \<Rightarrow> Inl e)
                else Inl err, s1)
      | Some (Inr result, s1) \<Rightarrow>
          if data_result result = PStr RESULT_ERROR
          then (case sensors s1 of
                  None \<Rightarrow> Some (Inl AssertionError, s1)
                | Some m \<Rightarrow>
                    if m = [] then Some (Inl AssertionError, s1)
                    else (case async_send_command ''get'' (Some (error_query m)) x2 s1 of
                            None \<Rightarrow> None
                          | Some (Inl err, s2) \<Rightarrow> Some (Inl err, s2)
                          | Some (Inr r, s2) \<Rightarrow> Some (Inr (), s2)))
          else if data_result result = PStr RESULT_INFO \<or> RESULT_OK \<noteq> []
          then (case data_sensors result of
                  [] \<Rightarrow> Some (Inr (), s1\<lparr>priv_last_error := None\<rparr>)
                | item # rest \<Rightarrow>
                    (case sensors s1 of
                       None \<Rightarrow> Some (Inl TypeError, s1)
                     | Some m \<Rightarrow>
                         Some (Inr (),
                               s1\<lparr>sensors := Some (merge_sensors (item # rest) m),
                                  priv_last_error := None\<rparr>)))
          else Some (Inr (), s1))"

text \<open>The handlers \<^verbatim>\<open>except (FourHeatCommandError, InvalidMessage, InvalidCommand)\<close> of
  \<^verbatim>\<open>async_set_state\<close> and \<^verbatim>\<open>async_get_state\<close>.\<close>

fun is_command_failure :: "exn \<Rightarrow> bool" where
  "is_command_failure (FourHeatCommandError e) = True"
| "is_command_failure InvalidMessage = True"
| "is_command_failure InvalidCommand = True"
| "is_command_failure e = False"

definition except_command_failure :: "exn \<Rightarrow> exn" where
  "except_command_failure err = (if is_command_failure err then FourHeatCommandError err else err)"

definition async_set_state ::
  "string \<Rightarrow> int \<Rightarrow> exchange \<Rightarrow> device \<Rightarrow> ((exn + bool) \<times> device) option" where
  "async_set_state attr v x s =
     (case sensors s of
        None \<Rightarrow> Some (Inl TypeError, s)
      | Some m \<Rightarrow>
          (case map_of m attr of
             None \<Rightarrow> Some (Inl AttributeError, s)
           | Some e \<Rightarrow>
               if sensor_type e = ''J'' then Some (Inl AttributeError, s)
               else (case async_send_command ''set'' (Some [PStr (token (CHR ''B'') attr v)]) x s of
                       None \<Rightarrow> None
                     | Some (Inl err, s1) \<Rightarrow> Some (Inl (except_command_failure err), s1)
                     | Some (Inr r, s1) \<Rightarrow>
                         (case sensors s1 of
                            None \<Rightarrow> Some (Inl TypeError, s1)
                          | Some m1 \<Rightarrow>
                              (case map_of m1 attr of
                                 None \<Rightarrow> Some (Inl KeyError, s1)
                               | Some e1 \<Rightarrow>
                                   Some (Inr True,
                                         s1\<lparr>sensors :=
                                              Some (AList.update attr (e1\<lparr>sensor_value := v\<rparr>) m1)\<rparr>))))))"

text \<open>The argument of \<^verbatim>\<open>async_get_state\<close> is a string or a list of strings.\<close>

datatype attr_arg = AttrStr string | AttrList "string list"

text \<open>The items of \<^verbatim>\<open>for item in attr\<close>: the elements of a list, the characters of a
  string.\<close>

fun attr_items :: "attr_arg \<Rightarrow> string list" where
  "attr_items (AttrStr a) = map (\<lambda>c. [c]) a"
| "attr_items (AttrList ids) = ids"

text \<open>\<^verbatim>\<open>arg\<close>: for a list, one list of one token for each id (\<^verbatim>\<open>arg.append([...])\<close>); for
  a string, the list of its one token.\<close>

fun get_arg :: "attr_arg \<Rightarrow> pyval list" where
  "get_arg (AttrStr a) = [PStr (token (CHR ''I'') a 0)]"
| "get_arg (AttrList ids) = map (\<lambda>item. PList [PStr (token (CHR ''I'') item 0)]) ids"

text \<open>\<^verbatim>\<open>item in self.sensors\<close> (a \<^verbatim>\<open>TypeError\<close> when \<^verbatim>\<open>self.sensors\<close> is \<^verbatim>\<open>None\<close>) and
  \<^verbatim>\<open>all(item in self.sensors for item in attr)\<close>, which stops at the first item that
  is missing.\<close>

definition py_in :: "string \<Rightarrow> (string \<times> entry) list option \<Rightarrow> exn + bool" where
  "py_in k d = (case d of None \<Rightarrow> Inl TypeError | Some m \<Rightarrow> Inr (map_of m k \<noteq> None))"

fun py_all_in :: "string list \<Rightarrow> (string \<times> entry) list option \<Rightarrow> exn + bool" where
  "py_all_in [] d = Inr True"
| "py_all_in (k # ks) d = bindE (py_in k d) (\<lambda>b. if b then py_all_in ks d else Inr False)"

text \<open>The two guards at the head of \<^verbatim>\<open>async_get_state\<close>: the exception raised, or
  \<open>None\<close> when both pass.\<close>

definition get_guards :: "attr_arg \<Rightarrow> device \<Rightarrow> exn option" where
  "get_guards attr s =
     (case (case attr of
              AttrStr a \<Rightarrow> bindE (py_in a (sensors s)) (\<lambda>b. Inr (\<not> b))
            | AttrList ids \<Rightarrow> Inr False) of
        Inl e \<Rightarrow> Some e
      | Inr absent \<Rightarrow>
          if absent then Some AttributeError
          else (case py_all_in (attr_items attr) (sensors s) of
                  Inl e \<Rightarrow> Some e
                | Inr b \<Rightarrow> if \<not> b then Some AttributeError else None))"

text \<open>The loop that writes the returned values back; a returned id that is no key of
  \<^verbatim>\<open>self.sensors\<close> raises \<^verbatim>\<open>KeyError\<close>, and what was written before stays.\<close>

fun write_back ::
  "reading list \<Rightarrow> (string \<times> entry) list option \<Rightarrow> exn option \<times> (string \<times> entry) list option" where
  "write_back [] d = (None, d)"
| "write_back (sensor # rest) d =
     (case d of
        None \<Rightarrow> (Some TypeError, d)
      | Some m \<Rightarrow>
          (case map_of m (rd_id sensor) of
             None \<Rightarrow> (Some KeyError, d)
           | Some e \<Rightarrow>
               write_back rest
                 (Some (AList.update (rd_id sensor)
                    (e\<lparr>sensor_value := rd_value sensor, sensor_type := rd_sensor_type sensor\<rparr>) m))))"

definition async_get_state ::
  "attr_arg \<Rightarrow> exchange \<Rightarrow> device \<Rightarrow> ((exn + response) \<times> device) option" where
  "async_get_state attr x s =
     (case get_guards attr s of
        Some e \<Rightarrow> Some (Inl e, s)
      | None \<Rightarrow>
          (case async_send_command ''get'' (Some (get_arg attr)) x s of
             None \<Rightarrow> None
           | Some (Inl err, s1) \<Rightarrow> Some (Inl (except_command_failure err), s1)
           | Some (Inr PyTrue, s1) \<Rightarrow> Some (Inl TypeError, s1)
           | Some (Inr (Data result), s1) \<Rightarrow>
               (case write_back (data_sensors result) (sensors s1) of
                  (Some err, d) \<Rightarrow> Some (Inl err, s1\<lparr>sensors := d\<rparr>)
                | (None, d) \<Rightarrow> Some (Inr result, s1\<lparr>sensors := d\<rparr>))))"

text \<open>A command table for the examples: each entry is a status token and a reserved
  token, so that the first argument token is \<^verbatim>\<open>query[2]\<close>. The table of the
  repository is in the missing \<^verbatim>\<open>const.py\<close>.\<close>

definition example_commands :: "(string \<times> pyval list) list" where
  "example_commands =
     [(''info'', [PStr ''I'', PStr ''0'']), (''get'', [PStr ''I'', PStr ''0'']),
      (''set'', [PStr ''A'', PStr ''0'']), (''on'', [PStr ''I'', PStr ''0'']),
      (''off'', [PStr ''I'', PStr ''0'']), (''unblock'', [PStr ''I'', PStr ''0''])]"

text \<open>An initialised device on which no command runs, with the given sensors.\<close>

definition example_device :: "(string \<times> entry) list \<Rightarrow> device" where
  "example_device m =
     (new_device example_commands)
       \<lparr>sensors := Some m, initialized := True, priv_command_is_running := None\<rparr>"

section \<open>Decimal strings\<close>

lemma of_char_digit_char: "d < 10 \<Longrightarrow> (of_char (digit_char d) :: nat) = 48 + d"
  by (simp add: digit_char_def)

lemma is_digit_digit_char: "d < 10 \<Longrightarrow> is_digit (digit_char d)"
  by (simp add: is_digit_def of_char_digit_char)

lemma digit_val_digit_char: "d < 10 \<Longrightarrow> digit_val (digit_char d) = d"
  by (simp add: digit_val_def of_char_digit_char)

lemma is_digit_not_space: "is_digit c \<Longrightarrow> \<not> is_space c"
  by (simp add: is_digit_def is_space_def)

lemma is_digit_not_special:
  assumes "is_digit c"
  shows "c \<noteq> CHR ''_''" and "c \<noteq> CHR ''-''" and "c \<noteq> CHR ''+''"
  using assms by (auto simp: is_digit_def)

lemma is_digit_zero: "is_digit (CHR ''0'')"
  by (simp add: is_digit_def)

lemma digit_val_zero: "digit_val (CHR ''0'') = 0"
  by (simp add: digit_val_def)

lemma digits_all_digit: "\<forall>c \<in> set (digits n). is_digit c"
proof (induction n rule: digits.induct)
  case (1 n)
  show ?case
  proof (cases "n < 10")
    case True
    then show ?thesis by (subst digits.simps) (simp add: is_digit_digit_char)
  next
    case False
    with "1" show ?thesis by (subst digits.simps) (simp add: is_digit_digit_char)
  qed
qed

lemma digits_nonempty: "digits n \<noteq> []"
  by (subst digits.simps) simp

lemma foldl_decimal:
  "foldl (\<lambda>a c. 10 * a + digit_val c) a ys = a * 10 ^ length ys + decimal ys"
  unfolding decimal_def
proof (induction ys rule: rev_induct)
  case Nil
  show ?case by simp
next
  case (snoc y ys)
  have "foldl (\<lambda>a c. 10 * a + digit_val c) a (ys @ [y])
        = 10 * foldl (\<lambda>a c. 10 * a + digit_val c) a ys + digit_val y"
    by simp
  also have "\<dots> = 10 * (a * 10 ^ length ys + foldl (\<lambda>a c. 10 * a + digit_val c) 0 ys)
        + digit_val y"
    by (simp only: snoc.IH)
  also have "\<dots> = a * 10 ^ length (ys @ [y])
        + foldl (\<lambda>a c. 10 * a + digit_val c) 0 (ys @ [y])"
    by (simp add: algebra_simps)
  finally show ?case .
qed

lemma decimal_append: "decimal (xs @ ys) = decimal xs * 10 ^ length ys + decimal ys"
proof -
  have "decimal (xs @ ys) = foldl (\<lambda>a c. 10 * a + digit_val c) (decimal xs) ys"
    by (simp add: decimal_def)
  then show ?thesis by (simp only: foldl_decimal)
qed

lemma decimal_single: "decimal [c] = digit_val c"
  by (simp add: decimal_def)

lemma decimal_Cons: "decimal (c # cs) = digit_val c * 10 ^ length cs + decimal cs"
  using decimal_append [of "[c]" cs] by (simp add: decimal_single)

lemma decimal_Nil: "decimal [] = 0"
  by (simp add: decimal_def)

lemma decimal_zeros: "decimal (replicate k (CHR ''0'')) = 0"
  by (induction k) (simp_all add: decimal_Nil decimal_Cons digit_val_zero)

lemma decimal_digits: "decimal (digits n) = n"
proof (induction n rule: digits.induct)
  case (1 n)
  show ?case
  proof (cases "n < 10")
    case True
    then show ?thesis by (subst digits.simps) (simp add: decimal_single digit_val_digit_char)
  next
    case False
    with "1" show ?thesis
      by (subst digits.simps) (simp add: decimal_append decimal_single digit_val_digit_char)
  qed
qed

lemma digits_bound: "n < 10 ^ length (digits n)"
proof (induction n rule: digits.induct)
  case (1 n)
  show ?case
  proof (cases "n < 10")
    case True
    then show ?thesis by (subst digits.simps) simp
  next
    case False
    with "1" have "n div 10 < 10 ^ length (digits (n div 10))" by simp
    then have "n < 10 * 10 ^ length (digits (n div 10))" by linarith
    with False show ?thesis by (subst digits.simps) simp
  qed
qed

lemma digits_leading: "0 < n \<Longrightarrow> digit_val (hd (digits n)) \<noteq> 0"
proof (induction n rule: digits.induct)
  case (1 n)
  show ?case
  proof (cases "n < 10")
    case True
    with "1.prems" show ?thesis by (subst digits.simps) (simp add: digit_val_digit_char)
  next
    case False
    then have "0 < n div 10" by simp
    with "1.IH" False have "digit_val (hd (digits (n div 10))) \<noteq> 0" by simp
    with False show ?thesis by (subst digits.simps) (simp add: digits_nonempty)
  qed
qed

lemma strip_digits:
  assumes "s \<noteq> []" and "\<forall>c \<in> set s. is_digit c"
  shows "strip s = s"
proof -
  from assms have h: "\<not> is_space (hd s)" by (simp add: is_digit_not_space)
  from assms have l: "\<not> is_space (last s)" by (simp add: is_digit_not_space)
  from assms h have "dropWhile is_space s = s" by (cases s) simp_all
  moreover from assms l have "dropWhile is_space (rev s) = rev s"
    by (cases "rev s") (simp_all add: last_rev hd_rev)
  ultimately show ?thesis by (simp add: strip_def)
qed

lemma digits_ok_all_digit: "s \<noteq> [] \<Longrightarrow> \<forall>c \<in> set s. is_digit c \<Longrightarrow> digits_ok s"
  by (induction s rule: digits_ok.induct) (auto simp: is_digit_not_special)

lemma filter_all_digit: "\<forall>c \<in> set s. is_digit c \<Longrightarrow> filter (\<lambda>c. c \<noteq> CHR ''_'') s = s"
  by (induction s) (auto simp: is_digit_not_special)

lemma int_of_str_digits:
  assumes "s \<noteq> []" and "\<forall>c \<in> set s. is_digit c"
  shows "int_of_str s = Inr (int (decimal s))"
proof (cases s)
  case Nil
  with assms show ?thesis by simp
next
  case (Cons c r)
  with assms have c: "c \<noteq> CHR ''-''" "c \<noteq> CHR ''+''"
    by (simp_all add: is_digit_not_special)
  have ok: "digits_ok (c # r)"
    using digits_ok_all_digit [OF assms] unfolding Cons .
  have flt: "filter (\<lambda>c. c \<noteq> CHR ''_'') (c # r) = c # r"
    using filter_all_digit [OF assms(2)] unfolding Cons .
  have u: "unsigned_of_str (c # r) = Inr (int (decimal (c # r)))"
    unfolding unsigned_of_str_def by (simp only: ok flt if_True)
  have "strip (c # r) = c # r"
    using strip_digits [OF assms] unfolding Cons .
  then have "int_of_str (c # r) = unsigned_of_str (c # r)"
    using c by (simp add: int_of_str_def)
  with u show ?thesis unfolding Cons by simp
qed

lemma digit_char_eval:
  "digit_char 0 = CHR ''0''" "digit_char 1 = CHR ''1''" "digit_char 2 = CHR ''2''"
  "digit_char 3 = CHR ''3''" "digit_char 4 = CHR ''4''" "digit_char 5 = CHR ''5''"
  "digit_char 6 = CHR ''6''" "digit_char 7 = CHR ''7''" "digit_char 8 = CHR ''8''"
  "digit_char 9 = CHR ''9''" "digit_char (Suc 0) = CHR ''1''"
  by (simp_all add: digit_char_def char_of_eq_iff)

lemma token_B_example: "token (CHR ''B'') ''00300'' 100000000042 = ''B00300100000000042''"
  by (simp add: token_def zfill_def py_str_def digits.simps digit_char_eval)

lemmas int_of_str_eval = int_of_str_def strip_def is_space_def unsigned_of_str_def is_digit_def
      decimal_def digit_val_def

lemma int_of_str_separator: "int_of_str [CHR 0x1C, CHR ''9''] = Inl ValueError"
  by (simp add: int_of_str_eval)

lemma int_of_str_no_break_space: "int_of_str [CHR 0xA0, CHR ''7'', CHR 0x85] = Inr 7"
  by (simp add: int_of_str_eval)

lemma int_of_str_42: "int_of_str ''00000000042'' = Inr 42"
  by (simp add: int_of_str_eval)

lemma int_of_str_0042: "int_of_str ''000000000042'' = Inr 42"
  by (simp add: int_of_str_eval)

lemma int_of_str_009: "int_of_str ''000000000009'' = Inr 9"
  by (simp add: int_of_str_eval)

lemma int_of_str_2: "int_of_str ''2'' = Inr 2"
  by (simp add: int_of_str_eval)

lemma int_of_str_error: "int_of_str s = Inl e \<Longrightarrow> e = ValueError"
  by (auto simp: int_of_str_def unsigned_of_str_def split: list.splits if_splits sum.splits)

lemma int_of_str_cases:
  obtains (bad) "int_of_str s = Inl ValueError" | (good) v where "int_of_str s = Inr v"
proof (cases "int_of_str s")
  case (Inl e)
  then show ?thesis using int_of_str_error [of s e] bad by simp
next
  case (Inr v)
  then show ?thesis using good by simp
qed

lemma int_of_str_empty: "int_of_str [] = Inl ValueError"
  by (simp add: int_of_str_def strip_def)

section \<open>The sensor token loop\<close>

lemma sensor_loop_strings:
  "sensor_loop (map PStr ts) acc =
     (if \<forall>t \<in> set ts. 6 < length t \<longrightarrow> int_of_str (drop 7 t) \<noteq> Inl ValueError
      then Inr (acc @ map (\<lambda>t. \<lparr>rd_id = take 5 (drop 1 t), rd_sensor_type = [t ! 0],
                                rd_value = projr (int_of_str (drop 7 t))\<rparr>)
                        (filter (\<lambda>t. 6 < length t) ts))
      else Inl ValueError)"
proof (induction ts arbitrary: acc)
  case Nil
  show ?case by simp
next
  case (Cons t ts)
  show ?case
  proof (cases "6 < length t")
    case False
    then show ?thesis using Cons.IH [of acc] by simp
  next
    case True
    show ?thesis
    proof (cases "drop 7 t" rule: int_of_str_cases)
      case bad
      with True show ?thesis by auto
    next
      case (good v)
      with True show ?thesis
        using Cons.IH [of "acc @ [\<lparr>rd_id = take 5 (drop 1 t), rd_sensor_type = [t ! 0], rd_value = v\<rparr>]"]
        by simp
    qed
  qed
qed

lemma parse_result_strings:
  "parse_result (Inr (PList (st # rsv # map PStr ts))) =
     (if \<forall>t \<in> set ts. 6 < length t \<longrightarrow> int_of_str (drop 7 t) \<noteq> Inl ValueError
      then Inr \<lparr>data_result = st,
                data_sensors =
                  map (\<lambda>t. \<lparr>rd_id = take 5 (drop 1 t), rd_sensor_type = [t ! 0],
                            rd_value = projr (int_of_str (drop 7 t))\<rparr>)
                      (filter (\<lambda>t. 6 < length t) ts)\<rparr>
      else Inl ValueError)"
  using sensor_loop_strings [of ts "[]"] by (simp add: parse_result_def)

text \<open>
  Claim C5, as amended. For a response whose elements from index 2 on are strings:
  elements of at most six characters are skipped without error; when the characters
  from index 7 on of every longer element parse as an integer, the readings are those
  elements in order, each decoded as id \<^verbatim>\<open>chars[1:6]\<close>, type \<^verbatim>\<open>chars[0]\<close> and value
  \<^verbatim>\<open>int(chars[7:])\<close>; otherwise the whole parse fails with \<^verbatim>\<open>ValueError\<close>. A token of
  exactly seven characters has nothing from index 7 on, so it makes the parse fail.
\<close>

theorem sensor_tokens_decoded:
  "parse_result (Inr (PList (st # rsv # map PStr ts))) =
     (if \<forall>t \<in> set ts. 6 < length t \<longrightarrow> int_of_str (drop 7 t) \<noteq> Inl ValueError
      then Inr \<lparr>data_result = st,
                data_sensors =
                  map (\<lambda>t. \<lparr>rd_id = take 5 (drop 1 t), rd_sensor_type = [t ! 0],
                            rd_value = projr (int_of_str (drop 7 t))\<rparr>)
                      (filter (\<lambda>t. 6 < length t) ts)\<rparr>
      else Inl ValueError)
   \<and> (\<forall>t \<in> set ts. length t = 7 \<longrightarrow>
        parse_result (Inr (PList (st # rsv # map PStr ts))) = Inl ValueError)"
proof -
  have "parse_result (Inr (PList (st # rsv # map PStr ts))) = Inl ValueError"
    if "t \<in> set ts" and "length t = 7" for t
  proof -
    from that have "6 < length t" and "int_of_str (drop 7 t) = Inl ValueError"
      by (simp_all add: int_of_str_empty)
    with that(1) have "\<not> (\<forall>t \<in> set ts. 6 < length t \<longrightarrow> int_of_str (drop 7 t) \<noteq> Inl ValueError)"
      by blast
    then show ?thesis unfolding parse_result_strings by simp
  qed
  with parse_result_strings [of st rsv ts] show ?thesis by blast
qed

text \<open>Claim C5, witness: a token of eight characters, a short filler token and a token of
  six characters.\<close>

theorem sensor_tokens_decoded_witness:
  "parse_result (Inr (PList [PStr ''I'', PInt 0, PStr ''I0050012'', PStr ''ERR'', PStr ''I00500'']))
     = Inr \<lparr>data_result = PStr ''I'',
            data_sensors = [\<lparr>rd_id = ''00500'', rd_sensor_type = ''I'', rd_value = 2\<rparr>]\<rparr>"
  using sensor_tokens_decoded [of "PStr ''I''" "PInt 0" "[''I0050012'', ''ERR'', ''I00500'']"]
  by (simp add: int_of_str_2)

text \<open>Claim C5, counterexample to the claim as stated: a token of exactly seven
  characters is not kept and parsed; the parse of the response raises.\<close>

theorem token_of_length_seven_fails:
  "parse_result (Inr (PList [PStr ''I'', PInt 0, PStr ''I005001''])) = Inl ValueError"
  by (simp add: parse_result_def int_of_str_empty)

section \<open>The token round trip\<close>

lemma length_zfill: "length (zfill w s) = max w (length s)"
  by (auto simp: zfill_def split: list.splits)

lemma zfill_digits:
  "zfill 12 (digits n) =
     (if 12 \<le> length (digits n) then digits n
      else replicate (12 - length (digits n)) (CHR ''0'') @ digits n)"
proof (cases "digits n")
  case Nil
  then show ?thesis using digits_nonempty by simp
next
  case (Cons c r)
  then have "is_digit c" using digits_all_digit [of n] by simp
  then have "c \<noteq> CHR ''+''" "c \<noteq> CHR ''-''" by (simp_all add: is_digit_not_special)
  then show ?thesis unfolding Cons by (simp add: zfill_def)
qed

lemma all_digit_zeros_digits: "\<forall>c \<in> set (replicate k (CHR ''0'') @ digits n). is_digit c"
  using digits_all_digit [of n] by (auto simp: is_digit_zero)

lemma decimal_zeros_digits: "decimal (replicate k (CHR ''0'') @ digits n) = n"
  by (simp add: decimal_append decimal_zeros decimal_digits)

lemma suffix_nonneg:
  "\<exists>w. int_of_str (drop 1 (zfill 12 (digits n))) = Inr (int w) \<and> (w = n \<longleftrightarrow> n < 10 ^ 11)"
proof (cases "12 \<le> length (digits n)")
  case False
  define k where "k = 11 - length (digits n)"
  from False have "12 - length (digits n) = Suc k" by (simp add: k_def)
  then have d: "drop 1 (zfill 12 (digits n)) = replicate k (CHR ''0'') @ digits n"
    using False by (simp add: zfill_digits)
  have ne: "replicate k (CHR ''0'') @ digits n \<noteq> []" by (simp add: digits_nonempty)
  have v: "int_of_str (drop 1 (zfill 12 (digits n))) = Inr (int n)"
    unfolding d using int_of_str_digits [OF ne all_digit_zeros_digits]
    by (simp only: decimal_zeros_digits)
  have "n < 10 ^ length (digits n)" by (rule digits_bound)
  also have "(10::nat) ^ length (digits n) \<le> 10 ^ 11"
    using False by (intro power_increasing) simp_all
  finally have "n < 10 ^ 11" .
  with v show ?thesis by blast
next
  case True
  then obtain c r where cr: "digits n = c # r" by (cases "digits n") auto
  with True have lr: "11 \<le> length r" by simp
  then have ne: "r \<noteq> []" by auto
  have ad: "\<forall>x \<in> set r. is_digit x" using digits_all_digit [of n] unfolding cr by simp
  have d: "drop 1 (zfill 12 (digits n)) = r"
    using True zfill_digits [of n] by (simp add: cr)
  have v: "int_of_str (drop 1 (zfill 12 (digits n))) = Inr (int (decimal r))"
    unfolding d by (rule int_of_str_digits [OF ne ad])
  have "0 < n"
  proof (rule ccontr)
    assume "\<not> 0 < n"
    then have "digits n = [digit_char 0]" by (subst digits.simps) simp
    with True show False by simp
  qed
  then have "digit_val c \<noteq> 0" using digits_leading [of n] by (simp add: cr)
  then have one: "1 \<le> digit_val c" by simp
  have n: "n = digit_val c * 10 ^ length r + decimal r"
    using decimal_digits [of n] by (simp add: cr decimal_Cons)
  have "(10::nat) ^ 11 \<le> 10 ^ length r" using lr by (intro power_increasing) simp_all
  also have "\<dots> \<le> digit_val c * 10 ^ length r" using one by simp
  finally have big: "10 ^ 11 \<le> digit_val c * 10 ^ length r" .
  with n have "10 ^ 11 \<le> n" by linarith
  moreover have "0 < digit_val c * 10 ^ length r" using one by simp
  with n have "decimal r \<noteq> n" by linarith
  ultimately show ?thesis using v by auto
qed

lemma suffix_neg:
  "int_of_str (drop 1 (zfill 12 (CHR ''-'' # digits m))) = Inr (int m)"
proof -
  have "\<exists>k. drop 1 (zfill 12 (CHR ''-'' # digits m)) = replicate k (CHR ''0'') @ digits m"
  proof (cases "12 \<le> length (CHR ''-'' # digits m)")
    case True
    then have "drop 1 (zfill 12 (CHR ''-'' # digits m)) = replicate 0 (CHR ''0'') @ digits m"
      by (simp add: zfill_def)
    then show ?thesis by blast
  next
    case False
    then have "drop 1 (zfill 12 (CHR ''-'' # digits m))
        = replicate (12 - length (CHR ''-'' # digits m)) (CHR ''0'') @ digits m"
      by (simp add: zfill_def)
    then show ?thesis by blast
  qed
  then obtain k where d: "drop 1 (zfill 12 (CHR ''-'' # digits m)) = replicate k (CHR ''0'') @ digits m" ..
  have ne: "replicate k (CHR ''0'') @ digits m \<noteq> []" by (simp add: digits_nonempty)
  show ?thesis
    unfolding d using int_of_str_digits [OF ne all_digit_zeros_digits]
    by (simp only: decimal_zeros_digits)
qed

lemma suffix_value:
  "\<exists>v'. int_of_str (drop 1 (zfill 12 (py_str v))) = Inr v' \<and> (v' = v \<longleftrightarrow> 0 \<le> v \<and> v < 10 ^ 11)"
proof (cases "v < 0")
  case True
  then have "int_of_str (drop 1 (zfill 12 (py_str v))) = Inr (- v)"
    using suffix_neg [of "nat (- v)"] by (simp add: py_str_def)
  with True show ?thesis by auto
next
  case False
  obtain w where w: "int_of_str (drop 1 (zfill 12 (digits (nat v)))) = Inr (int w)"
      "w = nat v \<longleftrightarrow> nat v < 10 ^ 11"
    using suffix_nonneg [of "nat v"] by blast
  from False have "(int w = v) = (w = nat v)" by auto
  moreover from False have "(nat v < 10 ^ 11) = (v < 10 ^ 11)" by auto
  ultimately have "int w = v \<longleftrightarrow> 0 \<le> v \<and> v < 10 ^ 11" using w(2) False by simp
  with w(1) False show ?thesis by (simp add: py_str_def)
qed

lemma token_parts:
  assumes "length attr = 5"
  shows "6 < length (token c attr v)" and "take 5 (drop 1 (token c attr v)) = attr"
    and "token c attr v ! 0 = c" and "drop 7 (token c attr v) = drop 1 (zfill 12 (py_str v))"
  using assms by (simp_all add: token_def length_zfill)

text \<open>
  Claim C10. A token built as type character, five-character id and the value padded
  with zeros to twelve digits, when it comes back as the only sensor token of a
  response, is parsed to a reading with the same id and the same type character; the
  parsed value is the written value exactly when \<open>0 \<le> v < 10\<^sup>1\<^sup>1\<close>, because the
  parser reads the value from index 7 on and so drops the first character of the
  twelve-digit field. In particular every value from \<open>10\<^sup>1\<^sup>1\<close> on comes back changed.
\<close>

theorem token_round_trip:
  assumes "length attr = 5"
  shows "\<exists>v'. parse_result (Inr (PList [st, rsv, PStr (token c attr v)]))
              = Inr \<lparr>data_result = st,
                     data_sensors = [\<lparr>rd_id = attr, rd_sensor_type = [c], rd_value = v'\<rparr>]\<rparr>
            \<and> (v' = v \<longleftrightarrow> 0 \<le> v \<and> v < 10 ^ 11)"
proof -
  obtain v' where v': "int_of_str (drop 1 (zfill 12 (py_str v))) = Inr v'"
      "v' = v \<longleftrightarrow> 0 \<le> v \<and> v < 10 ^ 11"
    using suffix_value [of v] by blast
  have "sensor_loop [PStr (token c attr v)] []
        = Inr [\<lparr>rd_id = attr, rd_sensor_type = [c], rd_value = v'\<rparr>]"
    using token_parts [OF assms, of c v] v'(1) by simp
  then have "parse_result (Inr (PList [st, rsv, PStr (token c attr v)]))
        = Inr \<lparr>data_result = st,
               data_sensors = [\<lparr>rd_id = attr, rd_sensor_type = [c], rd_value = v'\<rparr>]\<rparr>"
    by (simp add: parse_result_def)
  with v'(2) show ?thesis by blast
qed

text \<open>Claim C10, witness: the token of \<^verbatim>\<open>B\<close>, id \<^verbatim>\<open>12345\<close> and value 7.\<close>

theorem token_round_trip_witness:
  "length ''12345'' = 5 \<and>
   (\<exists>v'. parse_result (Inr (PList [PStr ''B'', PInt 0, PStr (token (CHR ''B'') ''12345'' 7)]))
              = Inr \<lparr>data_result = PStr ''B'',
                     data_sensors = [\<lparr>rd_id = ''12345'', rd_sensor_type = ''B'', rd_value = v'\<rparr>]\<rparr>
            \<and> (v' = 7 \<longleftrightarrow> (0::int) \<le> 7 \<and> (7::int) < 10 ^ 11))"
  using token_round_trip [of "''12345''" "PStr ''B''" "PInt 0" "CHR ''B''" 7] by simp

section \<open>The busy flag and the cooldown\<close>

lemma wait_idle_idle: "\<not> py_bool (priv_command_is_running s) \<Longrightarrow> wait_idle s = Some s"
  by (subst wait_idle.simps) simp

lemma wait_idle_busy:
  "py_bool (priv_command_is_running s) \<Longrightarrow> wait_idle s = wait_idle (asyncio_sleep 1 s)"
  by (subst wait_idle.simps) simp

lemma wait_idle_ends_idle:
  assumes "wait_idle s = Some w"
  shows "\<not> py_bool (priv_command_is_running w)"
proof (rule wait_idle.raw_induct [where P = "\<lambda>s w. \<not> py_bool (priv_command_is_running w)", OF _ assms])
  fix f s w
  assume IH: "\<And>x y. f x = Some y \<Longrightarrow> \<not> py_bool (priv_command_is_running y)"
    and step: "(if py_bool (priv_command_is_running s) then f (asyncio_sleep 1 s) else Some s) = Some w"
  show "\<not> py_bool (priv_command_is_running w)"
  proof (cases "py_bool (priv_command_is_running s)")
    case True
    with step have "f (asyncio_sleep 1 s) = Some w" by simp
    then show ?thesis by (rule IH)
  next
    case False
    with step show ?thesis by simp
  qed
qed

lemma fold_wakeup:
  "fold (\<lambda>w. i_am_lazy_wakeup) due s = (if due = [] then s else i_am_lazy_wakeup s)"
  by (induction due arbitrary: s) (auto simp: i_am_lazy_wakeup_def)

lemma asyncio_sleep_eq:
  "asyncio_sleep d s =
     (if \<exists>w \<in> set (lazy_tasks s). w \<le> now s + d
      then s\<lparr>now := now s + d, lazy_tasks := filter (\<lambda>w. \<not> w \<le> now s + d) (lazy_tasks s),
             priv_command_is_running := None\<rparr>
      else s\<lparr>now := now s + d\<rparr>)"
proof (cases "\<exists>w \<in> set (lazy_tasks s). w \<le> now s + d")
  case True
  then have "filter (\<lambda>w. w \<le> now s + d) (lazy_tasks s) \<noteq> []"
    by (simp add: filter_empty_conv)
  with True show ?thesis
    by (simp add: asyncio_sleep_def Let_def fold_wakeup i_am_lazy_wakeup_def)
next
  case False
  then have e: "filter (\<lambda>w. w \<le> now s + d) (lazy_tasks s) = []"
    by (simp add: filter_empty_conv)
  from False have "filter (\<lambda>w. \<not> w \<le> now s + d) (lazy_tasks s) = lazy_tasks s"
    by (simp add: filter_id_conv)
  with False e show ?thesis
    by (simp add: asyncio_sleep_def Let_def fold_wakeup)
qed

lemma asyncio_sleep_due:
  assumes "D \<in> set (lazy_tasks s)" and "D \<le> now s + d"
  shows "priv_command_is_running (asyncio_sleep d s) = None"
  using assms by (auto simp: asyncio_sleep_eq)

lemma exchange_block_ok:
  assumes "exchange_block query x s = (Inr data, s')"
  shows "priv_command_is_running s' = None"
  using assms by (auto simp: exchange_block_def Let_def split: sum.splits)

lemma exchange_block_fails:
  assumes "exchange_block query x s = (Inl e, s')"
  shows "is_DeviceConnectionError e" and "now s' + RETRY_UPDATE_SLEEP \<in> set (lazy_tasks s')"
    and "priv_last_error s' = Some e" and "now s' = now s"
  using assms by (auto simp: exchange_block_def Let_def split: sum.splits)

lemma py_getitem_error: "py_getitem v i = Inl e \<Longrightarrow> e = IndexError \<or> e = TypeError"
  by (cases v) (auto split: if_splits)

lemma py_slice_error: "py_slice v a b = Inl e \<Longrightarrow> e = TypeError"
  by (cases v) auto

lemma py_slice_from_error: "py_slice_from v a = Inl e \<Longrightarrow> e = TypeError"
  by (cases v) auto

lemma py_int_error: "py_int v = Inl e \<Longrightarrow> e = ValueError \<or> e = TypeError"
  by (cases v) (auto dest: int_of_str_error)

lemma set_ack_error:
  "set_ack command query result = Inl e \<Longrightarrow> e \<in> {IndexError, TypeError, ValueError}"
  unfolding set_ack_def andE_def bindE_def first_sensor_def
  by (auto split: sum.splits if_splits list.splits
      dest: py_slice_error py_slice_from_error py_int_error)

lemma control_ack_error:
  "control_ack command query result = Inl e \<Longrightarrow> e \<in> {IndexError, TypeError, ValueError}"
  unfolding control_ack_def andE_def bindE_def first_sensor_def
  by (auto split: sum.splits if_splits list.splits
      dest: py_slice_error py_slice_from_error py_int_error)

lemma validate_error:
  assumes "validate command query result s = Inl e"
  shows "e \<in> {InvalidMessage, IndexError, TypeError, ValueError}"
  using assms unfolding validate_def
  by (auto simp: bindE_def dict_eq_str_def split: sum.splits if_splits option.splits
      dest: set_ack_error control_ack_error)

lemma validate_not_connection_error:
  "validate command query result s = Inl e \<Longrightarrow> \<not> is_DeviceConnectionError e"
  by (auto dest: validate_error)

lemma validate_no_command_error:
  "validate command query result s \<noteq> Inl (FourHeatCommandError e)"
  by (auto dest: validate_error)

lemma async_send_command_known:
  assumes "map_of (commands s) command = Some base"
  shows "async_send_command command arg x s =
     (case wait_idle s of
        None \<Rightarrow> None
      | Some w \<Rightarrow>
          Some (except_DeviceConnectionError
                  (bindE (fst (exchange_block (build_query base arg) x w))
                     (\<lambda>result. validate command (build_query base arg) result
                                 (snd (exchange_block (build_query base arg) x w)))),
                snd (exchange_block (build_query base arg) x w)))"
  using assms
  by (simp add: async_send_command_def send_and_receive_def split: option.splits prod.splits)

lemma dispatch_result:
  assumes "map_of (commands s) command = Some base"
    and "async_send_command command arg x s = Some (r, s')"
  obtains w where "wait_idle s = Some w"
    and "s' = snd (exchange_block (build_query base arg) x w)"
    and "r = except_DeviceConnectionError
               (bindE (fst (exchange_block (build_query base arg) x w))
                  (\<lambda>result. validate command (build_query base arg) result s'))"
  using assms(2) unfolding async_send_command_known [OF assms(1)]
  by (auto split: option.splits)

text \<open>
  Claim C1. For a command of the table, whenever \<^verbatim>\<open>async_send_command\<close> terminates
  with a result or an error \<open>r\<close> in a state \<open>s'\<close>: if \<open>r\<close> is the
  \<^verbatim>\<open>FourHeatCommandError\<close> of a failed exchange, an \<^verbatim>\<open>_i_am_lazy\<close> task is pending that
  ends \<^verbatim>\<open>RETRY_UPDATE_SLEEP\<close> seconds later, and once that time has passed
  \<^verbatim>\<open>_command_is_running\<close> is \<^verbatim>\<open>None\<close>; in every other case (a result, or an error of
  the acknowledgement check such as \<^verbatim>\<open>InvalidMessage\<close>) \<^verbatim>\<open>_command_is_running\<close> is
  \<^verbatim>\<open>None\<close> at once.
\<close>

theorem gate_returns_to_idle:
  assumes "map_of (commands s) command = Some base"
    and "async_send_command command arg x s = Some (r, s')"
  shows "if \<exists>e. r = Inl (FourHeatCommandError e)
         then now s' + RETRY_UPDATE_SLEEP \<in> set (lazy_tasks s')
              \<and> (\<forall>d. RETRY_UPDATE_SLEEP \<le> d \<longrightarrow>
                     priv_command_is_running (asyncio_sleep d s') = None)
         else priv_command_is_running s' = None"
proof -
  obtain w where w: "wait_idle s = Some w"
    and s': "s' = snd (exchange_block (build_query base arg) x w)"
    and r: "r = except_DeviceConnectionError
               (bindE (fst (exchange_block (build_query base arg) x w))
                  (\<lambda>result. validate command (build_query base arg) result s'))"
    using assms by (rule dispatch_result)
  show ?thesis
  proof (cases "fst (exchange_block (build_query base arg) x w)")
    case (Inl e)
    then have eb: "exchange_block (build_query base arg) x w = (Inl e, s')"
      using s' by (simp add: prod_eq_iff)
    have dce: "is_DeviceConnectionError e" using eb by (rule exchange_block_fails(1))
    have task: "now s' + RETRY_UPDATE_SLEEP \<in> set (lazy_tasks s')"
      using eb by (rule exchange_block_fails(2))
    from Inl dce have "r = Inl (FourHeatCommandError e)"
      unfolding r by (simp add: bindE_def except_DeviceConnectionError_def)
    moreover have "priv_command_is_running (asyncio_sleep d s') = None"
      if "RETRY_UPDATE_SLEEP \<le> d" for d
      using task that by (intro asyncio_sleep_due [where D = "now s' + RETRY_UPDATE_SLEEP"]) simp_all
    ultimately show ?thesis using task by simp
  next
    case (Inr data)
    then have eb: "exchange_block (build_query base arg) x w = (Inr data, s')"
      using s' by (simp add: prod_eq_iff)
    have idle: "priv_command_is_running s' = None" using eb by (rule exchange_block_ok)
    have "r \<noteq> Inl (FourHeatCommandError e)" for e
    proof
      assume a: "r = Inl (FourHeatCommandError e)"
      show False
      proof (cases "validate command (build_query base arg) data s'")
        case (Inl e')
        then have "\<not> is_DeviceConnectionError e'" by (rule validate_not_connection_error)
        with Inl Inr a r have "e' = FourHeatCommandError e"
          by (simp add: bindE_def except_DeviceConnectionError_def)
        with Inl show False by (simp add: validate_no_command_error)
      next
        case (Inr v)
        with \<open>fst _ = Inr data\<close> a r show False
          by (simp add: bindE_def except_DeviceConnectionError_def)
      qed
    qed
    with idle show ?thesis by simp
  qed
qed

lemmas example_defs = example_device_def new_device_def example_commands_def

lemma example_failure:
  "async_send_command ''info'' None (Raises OSError) (example_device []) =
     Some (Inl (FourHeatCommandError (DeviceConnectionError OSError)),
           (example_device [])
             \<lparr>priv_last_error := Some (DeviceConnectionError OSError),
              priv_command_is_running := Some (PList [PStr ''I'', PStr ''0'']),
              lazy_tasks := [5],
              exchanges := [(0, [PStr ''I'', PStr ''0''])]\<rparr>)"
  by (simp add: async_send_command_def send_and_receive_def wait_idle_idle exchange_block_def
      build_query_def bindE_def except_DeviceConnectionError_def RETRY_UPDATE_SLEEP_def
      example_defs)

text \<open>Claim C1, witness: the \<^verbatim>\<open>info\<close> command on an idle device whose socket raises;
  the flag stays set until five seconds have passed.\<close>

theorem gate_returns_to_idle_witness:
  "async_send_command ''info'' None (Raises OSError) (example_device []) =
     Some (Inl (FourHeatCommandError (DeviceConnectionError OSError)),
           (example_device [])
             \<lparr>priv_last_error := Some (DeviceConnectionError OSError),
              priv_command_is_running := Some (PList [PStr ''I'', PStr ''0'']),
              lazy_tasks := [5],
              exchanges := [(0, [PStr ''I'', PStr ''0''])]\<rparr>)
   \<and> priv_command_is_running
        (asyncio_sleep 5
          ((example_device [])
             \<lparr>priv_last_error := Some (DeviceConnectionError OSError),
              priv_command_is_running := Some (PList [PStr ''I'', PStr ''0'']),
              lazy_tasks := [5],
              exchanges := [(0, [PStr ''I'', PStr ''0''])]\<rparr>)) = None"
proof -
  have known: "map_of (commands (example_device [])) ''info'' = Some [PStr ''I'', PStr ''0'']"
    by (simp add: example_defs)
  show ?thesis
    using gate_returns_to_idle [OF known example_failure] example_failure
    by (simp add: RETRY_UPDATE_SLEEP_def)
qed

lemma wait_cooldown:
  assumes "py_bool (priv_command_is_running u)" and "lazy_tasks u = [D]" and "now u < D"
  shows "\<exists>k::nat. wait_idle u =
            Some (u\<lparr>now := now u + real k, lazy_tasks := [], priv_command_is_running := None\<rparr>)
          \<and> D \<le> now u + real k"
  using assms
proof (induction "nat \<lceil>D - now u\<rceil>" arbitrary: u rule: less_induct)
  case less
  have step: "wait_idle u = wait_idle (asyncio_sleep 1 u)"
    using less.prems(1) by (rule wait_idle_busy)
  show ?case
  proof (cases "D \<le> now u + 1")
    case True
    then have "asyncio_sleep 1 u =
        u\<lparr>now := now u + 1, lazy_tasks := [], priv_command_is_running := None\<rparr>"
      using less.prems(2) by (simp add: asyncio_sleep_eq)
    then have "wait_idle u =
        Some (u\<lparr>now := now u + real 1, lazy_tasks := [], priv_command_is_running := None\<rparr>)"
      using step by (simp add: wait_idle_idle)
    with True show ?thesis by (intro exI [where x = 1]) simp
  next
    case False
    define u' where "u' = u\<lparr>now := now u + 1\<rparr>"
    from False have sl: "asyncio_sleep 1 u = u'"
      using less.prems(2) by (simp add: asyncio_sleep_eq u'_def)
    have p: "py_bool (priv_command_is_running u')" "lazy_tasks u' = [D]" "now u' < D"
      using less.prems False by (simp_all add: u'_def)
    have "nat \<lceil>D - now u'\<rceil> < nat \<lceil>D - now u\<rceil>"
      using False by (simp add: u'_def) linarith
    from less.hyps [OF this p] obtain k :: nat where
      k: "wait_idle u' =
            Some (u'\<lparr>now := now u' + real k, lazy_tasks := [], priv_command_is_running := None\<rparr>)"
         "D \<le> now u' + real k"
      by blast
    have "wait_idle u =
        Some (u\<lparr>now := now u + real (Suc k), lazy_tasks := [], priv_command_is_running := None\<rparr>)"
      using step sl k(1) by (simp add: u'_def add.assoc add.commute)
    moreover have "D \<le> now u + real (Suc k)" using k(2) by (simp add: u'_def)
    ultimately show ?thesis by blast
  qed
qed

lemma exchange_block_log:
  "exchanges (snd (exchange_block query x w)) = exchanges w @ [(now w, query)]"
  by (simp add: exchange_block_def Let_def split: sum.splits)

lemma exchange_block_raises:
  "exchange_block query (Raises e) s =
     (Inl (DeviceConnectionError e),
      s\<lparr>priv_command_is_running := Some (PList query),
        exchanges := exchanges s @ [(now s, query)],
        priv_last_error := Some (DeviceConnectionError e),
        lazy_tasks := lazy_tasks s @ [now s + RETRY_UPDATE_SLEEP]\<rparr>)"
  by (simp add: exchange_block_def Let_def)

text \<open>
  Claim C3. On an idle device with no pending \<^verbatim>\<open>_i_am_lazy\<close> task, a dispatch of a
  known command with a non-empty query whose exchange raises \<open>e\<close> returns at once (the
  clock does not advance) with \<^verbatim>\<open>FourHeatCommandError\<close> caused by the
  \<^verbatim>\<open>DeviceConnectionError\<close> caused by \<open>e\<close>, and leaves the flag set. A dispatch of a
  known command started \<open>d\<close> seconds later, \<open>0 \<le> d < RETRY_UPDATE_SLEEP\<close>, leaves
  its polling loop (it does terminate) in a state \<open>w\<close> whose clock is at least
  \<^verbatim>\<open>RETRY_UPDATE_SLEEP\<close> after the failure and whose flag the task has reset to
  \<^verbatim>\<open>None\<close>; only then does it begin its exchange, logged at the time of \<open>w\<close>.
\<close>

theorem cooldown_blocks_next_dispatch:
  assumes idle: "\<not> py_bool (priv_command_is_running s)" and quiet: "lazy_tasks s = []"
    and known: "map_of (commands s) command = Some base"
    and nonempty: "build_query base arg \<noteq> []"
    and known2: "map_of (commands s) command2 = Some base2"
    and d: "0 \<le> d" "d < RETRY_UPDATE_SLEEP"
  shows "\<exists>s1 w r2 s2.
      async_send_command command arg (Raises e) s
        = Some (Inl (FourHeatCommandError (DeviceConnectionError e)), s1)
    \<and> now s1 = now s
    \<and> py_bool (priv_command_is_running s1)
    \<and> wait_idle (asyncio_sleep d s1) = Some w
    \<and> now s + RETRY_UPDATE_SLEEP \<le> now w
    \<and> priv_command_is_running w = None
    \<and> async_send_command command2 arg2 x2 (asyncio_sleep d s1) = Some (r2, s2)
    \<and> exchanges s2
        = exchanges s @ [(now s, build_query base arg), (now w, build_query base2 arg2)]"
proof -
  define q where "q = build_query base arg"
  define q2 where "q2 = build_query base2 arg2"
  define s1 where "s1 = s\<lparr>priv_command_is_running := Some (PList q),
        exchanges := exchanges s @ [(now s, q)],
        priv_last_error := Some (DeviceConnectionError e),
        lazy_tasks := [now s + RETRY_UPDATE_SLEEP]\<rparr>"
  have first: "async_send_command command arg (Raises e) s
      = Some (Inl (FourHeatCommandError (DeviceConnectionError e)), s1)"
    unfolding async_send_command_known [OF known]
    by (simp add: wait_idle_idle [OF idle] exchange_block_raises quiet bindE_def
        except_DeviceConnectionError_def s1_def q_def)
  have busy: "py_bool (priv_command_is_running s1)"
    using nonempty by (simp add: s1_def q_def)
  define u where "u = asyncio_sleep d s1"
  have u: "u = s1\<lparr>now := now s + d\<rparr>"
    using d by (simp add: u_def asyncio_sleep_eq s1_def)
  have "py_bool (priv_command_is_running u)" and "lazy_tasks u = [now s + RETRY_UPDATE_SLEEP]"
    and "now u < now s + RETRY_UPDATE_SLEEP"
    using busy d by (simp_all add: u s1_def)
  from wait_cooldown [OF this] obtain k :: nat where
    k: "wait_idle u =
          Some (u\<lparr>now := now u + real k, lazy_tasks := [], priv_command_is_running := None\<rparr>)"
       "now s + RETRY_UPDATE_SLEEP \<le> now u + real k"
    by blast
  define w where "w = u\<lparr>now := now u + real k, lazy_tasks := [], priv_command_is_running := None\<rparr>"
  have w: "wait_idle u = Some w" using k(1) by (simp add: w_def)
  have noww: "now s + RETRY_UPDATE_SLEEP \<le> now w" using k(2) by (simp add: w_def)
  have gate: "priv_command_is_running w = None" by (simp add: w_def)
  have "map_of (commands u) command2 = Some base2"
    using known2 by (simp add: u s1_def)
  from async_send_command_known [OF this, of arg2 x2]
  obtain r2 where second: "async_send_command command2 arg2 x2 u
      = Some (r2, snd (exchange_block q2 x2 w))"
    by (simp add: w q2_def)
  have "exchanges (snd (exchange_block q2 x2 w)) = exchanges w @ [(now w, q2)]"
    by (rule exchange_block_log)
  also have "exchanges w = exchanges s @ [(now s, q)]"
    by (simp add: w_def u s1_def)
  finally have log: "exchanges (snd (exchange_block q2 x2 w))
      = exchanges s @ [(now s, q), (now w, q2)]"
    by simp
  have "now s1 = now s" by (simp add: s1_def)
  with first busy w noww gate second log show ?thesis
    unfolding u_def q_def q2_def by blast
qed

text \<open>Claim C3, witness: \<^verbatim>\<open>info\<close> fails on the example device, and a \<^verbatim>\<open>get\<close> is
  dispatched two seconds later.\<close>

theorem cooldown_blocks_next_dispatch_witness:
  "\<exists>s1 w r2 s2.
      async_send_command ''info'' None (Raises OSError) (example_device [])
        = Some (Inl (FourHeatCommandError (DeviceConnectionError OSError)), s1)
    \<and> now s1 = now (example_device [])
    \<and> py_bool (priv_command_is_running s1)
    \<and> wait_idle (asyncio_sleep 2 s1) = Some w
    \<and> now (example_device []) + RETRY_UPDATE_SLEEP \<le> now w
    \<and> priv_command_is_running w = None
    \<and> async_send_command ''get'' (Some [PStr ''I005000000000000000'']) (Raises OSError)
          (asyncio_sleep 2 s1) = Some (r2, s2)
    \<and> exchanges s2
        = exchanges (example_device [])
          @ [(now (example_device []), build_query [PStr ''I'', PStr ''0''] None),
             (now w, build_query [PStr ''I'', PStr ''0''] (Some [PStr ''I005000000000000000'']))]"
  by (rule cooldown_blocks_next_dispatch)
     (simp_all add: example_defs build_query_def RETRY_UPDATE_SLEEP_def)

subsection \<open>The states in which a dispatch starts\<close>

text \<open>
  Either no \<^verbatim>\<open>_i_am_lazy\<close> task is pending and the flag is clear, or exactly one is
  pending, it ends in the future and the flag is set. This holds of the device as
  \<^verbatim>\<open>__init__\<close> leaves it; sleeping and dispatching a command with a non-empty query keep
  it, and from every such state a dispatch of a known command terminates.
\<close>

lemma cooling_sleep:
  assumes "0 \<le> d"
    and "(lazy_tasks s = [] \<and> \<not> py_bool (priv_command_is_running s))
       \<or> (\<exists>D. lazy_tasks s = [D] \<and> py_bool (priv_command_is_running s) \<and> now s < D)"
  shows "(lazy_tasks (asyncio_sleep d s) = []
          \<and> \<not> py_bool (priv_command_is_running (asyncio_sleep d s)))
       \<or> (\<exists>D. lazy_tasks (asyncio_sleep d s) = [D]
              \<and> py_bool (priv_command_is_running (asyncio_sleep d s))
              \<and> now (asyncio_sleep d s) < D)"
  using assms by (auto simp: asyncio_sleep_eq)

lemma cooling_wait:
  assumes "(lazy_tasks s = [] \<and> \<not> py_bool (priv_command_is_running s))
       \<or> (\<exists>D. lazy_tasks s = [D] \<and> py_bool (priv_command_is_running s) \<and> now s < D)"
  shows "\<exists>w. wait_idle s = Some w \<and> lazy_tasks w = []
           \<and> \<not> py_bool (priv_command_is_running w) \<and> commands w = commands s"
proof (cases "py_bool (priv_command_is_running s)")
  case False
  then have "wait_idle s = Some s" by (rule wait_idle_idle)
  with False assms show ?thesis by auto
next
  case True
  with assms obtain D where "lazy_tasks s = [D]" "now s < D" by auto
  from wait_cooldown [OF True this] obtain k :: nat where
    "wait_idle s =
       Some (s\<lparr>now := now s + real k, lazy_tasks := [], priv_command_is_running := None\<rparr>)"
    by blast
  then show ?thesis by simp
qed

lemma cooling_dispatch:
  assumes inv: "(lazy_tasks s = [] \<and> \<not> py_bool (priv_command_is_running s))
       \<or> (\<exists>D. lazy_tasks s = [D] \<and> py_bool (priv_command_is_running s) \<and> now s < D)"
    and known: "map_of (commands s) command = Some base"
    and nonempty: "build_query base arg \<noteq> []"
  shows "\<exists>r s'. async_send_command command arg x s = Some (r, s')
       \<and> ((lazy_tasks s' = [] \<and> \<not> py_bool (priv_command_is_running s'))
          \<or> (\<exists>D. lazy_tasks s' = [D] \<and> py_bool (priv_command_is_running s') \<and> now s' < D))"
proof -
  from cooling_wait [OF inv] obtain w where w: "wait_idle s = Some w" "lazy_tasks w = []"
    by blast
  define s' where "s' = snd (exchange_block (build_query base arg) x w)"
  have "(lazy_tasks s' = [] \<and> \<not> py_bool (priv_command_is_running s'))
      \<or> (\<exists>D. lazy_tasks s' = [D] \<and> py_bool (priv_command_is_running s') \<and> now s' < D)"
    using w(2) nonempty
    by (auto simp: s'_def exchange_block_def Let_def RETRY_UPDATE_SLEEP_def split: sum.splits)
  moreover have "\<exists>r. async_send_command command arg x s = Some (r, s')"
    unfolding async_send_command_known [OF known] by (simp add: w(1) s'_def)
  ultimately show ?thesis by blast
qed

section \<open>Parse failures\<close>

lemma exchange_block_parse_fails:
  assumes "t \<noteq> []" and "parse_result ev = Inl e"
  shows "exchange_block query (Recv t ev) s =
     (Inl (DeviceConnectionError e),
      s\<lparr>priv_command_is_running := Some (PList query),
        exchanges := exchanges s @ [(now s, query)],
        priv_last_error := Some (DeviceConnectionError e),
        lazy_tasks := lazy_tasks s @ [now s + RETRY_UPDATE_SLEEP]\<rparr>)"
  using assms by (simp add: exchange_block_def Let_def)

lemma sensor_loop_chars: "sensor_loop (map (\<lambda>c. PStr [c]) cs) acc = Inr acc"
  by (induction cs) simp_all

lemma parse_result_string:
  "parse_result (Inr (PStr (c # cs))) = Inr \<lparr>data_result = PStr [c], data_sensors = []\<rparr>"
  by (simp add: parse_result_def sensor_loop_chars)

lemma parse_result_int: "parse_result (Inr (PInt n)) = Inl TypeError"
  by (simp add: parse_result_def)

lemma exchange_block_parse_ok:
  assumes "t \<noteq> []" and "parse_result ev = Inr data"
  shows "exchange_block query (Recv t ev) s =
     (Inr data,
      s\<lparr>priv_command_is_running := None,
        exchanges := exchanges s @ [(now s, query)],
        priv_last_error := None\<rparr>)"
  using assms by (simp add: exchange_block_def Let_def)

text \<open>
  Claim C4, as amended. On an idle device, let the decoded text be not empty. When
  \<^verbatim>\<open>ast.literal_eval\<close> raises \<open>e\<close> on it, or it is an integer literal (\<open>e\<close> is
  \<^verbatim>\<open>TypeError\<close>) or the empty string literal (\<open>e\<close> is \<^verbatim>\<open>IndexError\<close>), or it is a list
  whose elements from index 2 on are strings, one of them longer than six characters
  with a value suffix that \<^verbatim>\<open>int\<close> rejects (\<open>e\<close> is \<^verbatim>\<open>ValueError\<close>), then
  \<^verbatim>\<open>send_and_receive\<close> raises at once \<^verbatim>\<open>DeviceConnectionError\<close> caused by \<open>e\<close>, not
  \<^verbatim>\<open>InvalidMessage\<close>; \<^verbatim>\<open>_last_error\<close> is that error; \<^verbatim>\<open>_command_is_running\<close> holds the
  query and is \<^verbatim>\<open>None\<close> from \<^verbatim>\<open>RETRY_UPDATE_SLEEP\<close> seconds later on; when the query is
  not empty and no \<^verbatim>\<open>_i_am_lazy\<close> task was pending, the flag is set during the whole
  window before that. A text that is a non-empty string literal is no list literal, yet
  it is not rejected: the result has its first character as status and no readings,
  and the flag is cleared.
\<close>

theorem parse_failure_is_connection_error:
  assumes idle: "\<not> py_bool (priv_command_is_running s)" and nonempty: "t \<noteq> []"
    and fails: "ev = Inl e
      \<or> (e = TypeError \<and> (\<exists>n. ev = Inr (PInt n)))
      \<or> (e = IndexError \<and> ev = Inr (PStr []))
      \<or> (e = ValueError \<and>
         (\<exists>st rsv ts tok. ev = Inr (PList (st # rsv # map PStr ts)) \<and> tok \<in> set ts
            \<and> 6 < length tok \<and> int_of_str (drop 7 tok) = Inl ValueError))"
  shows "(\<exists>s'. send_and_receive query (Recv t ev) s = Some (Inl (DeviceConnectionError e), s')
        \<and> priv_last_error s' = Some (DeviceConnectionError e)
        \<and> now s' = now s
        \<and> priv_command_is_running s' = Some (PList query)
        \<and> (\<forall>d. RETRY_UPDATE_SLEEP \<le> d \<longrightarrow>
               priv_command_is_running (asyncio_sleep d s') = None)
        \<and> (query \<noteq> [] \<and> lazy_tasks s = [] \<longrightarrow>
             (\<forall>d. 0 \<le> d \<and> d < RETRY_UPDATE_SLEEP \<longrightarrow>
                  py_bool (priv_command_is_running (asyncio_sleep d s')))))
    \<and> (\<exists>s'. send_and_receive query (Recv t (Inr (PStr (c # cs)))) s
              = Some (Inr \<lparr>data_result = PStr [c], data_sensors = []\<rparr>, s')
          \<and> priv_last_error s' = None \<and> priv_command_is_running s' = None)"
proof
  have p: "parse_result ev = Inl e"
    using fails
  proof (elim disjE)
    assume "ev = Inl e"
    then show ?thesis by (simp add: parse_result_def)
  next
    assume "e = TypeError \<and> (\<exists>n. ev = Inr (PInt n))"
    then show ?thesis by (auto simp: parse_result_int)
  next
    assume "e = IndexError \<and> ev = Inr (PStr [])"
    then show ?thesis by (simp add: parse_result_def)
  next
    assume "e = ValueError \<and>
       (\<exists>st rsv ts tok. ev = Inr (PList (st # rsv # map PStr ts)) \<and> tok \<in> set ts
          \<and> 6 < length tok \<and> int_of_str (drop 7 tok) = Inl ValueError)"
    then obtain st rsv ts tok where e: "e = ValueError"
      and ev: "ev = Inr (PList (st # rsv # map PStr ts))"
      and tok: "tok \<in> set ts" "6 < length tok" "int_of_str (drop 7 tok) = Inl ValueError"
      by blast
    from tok have "\<not> (\<forall>t \<in> set ts. 6 < length t \<longrightarrow> int_of_str (drop 7 t) \<noteq> Inl ValueError)"
      by blast
    then show ?thesis unfolding ev e parse_result_strings by simp
  qed
  define s' where "s' = s\<lparr>priv_command_is_running := Some (PList query),
        exchanges := exchanges s @ [(now s, query)],
        priv_last_error := Some (DeviceConnectionError e),
        lazy_tasks := lazy_tasks s @ [now s + RETRY_UPDATE_SLEEP]\<rparr>"
  have r: "send_and_receive query (Recv t ev) s = Some (Inl (DeviceConnectionError e), s')"
    by (simp add: send_and_receive_def wait_idle_idle [OF idle]
        exchange_block_parse_fails [OF nonempty p] s'_def)
  have task: "now s' + RETRY_UPDATE_SLEEP \<in> set (lazy_tasks s')" by (simp add: s'_def)
  have after: "priv_command_is_running (asyncio_sleep d s') = None"
    if "RETRY_UPDATE_SLEEP \<le> d" for d
    using task that by (intro asyncio_sleep_due [where D = "now s' + RETRY_UPDATE_SLEEP"]) simp_all
  have during: "py_bool (priv_command_is_running (asyncio_sleep d s'))"
    if "query \<noteq> []" "lazy_tasks s = []" "0 \<le> d" "d < RETRY_UPDATE_SLEEP" for d
    using that by (simp add: asyncio_sleep_eq s'_def)
  have "priv_last_error s' = Some (DeviceConnectionError e)" "now s' = now s"
    "priv_command_is_running s' = Some (PList query)"
    by (simp_all add: s'_def)
  with r after during
  show "\<exists>s'. send_and_receive query (Recv t ev) s = Some (Inl (DeviceConnectionError e), s')
        \<and> priv_last_error s' = Some (DeviceConnectionError e)
        \<and> now s' = now s
        \<and> priv_command_is_running s' = Some (PList query)
        \<and> (\<forall>d. RETRY_UPDATE_SLEEP \<le> d \<longrightarrow>
               priv_command_is_running (asyncio_sleep d s') = None)
        \<and> (query \<noteq> [] \<and> lazy_tasks s = [] \<longrightarrow>
             (\<forall>d. 0 \<le> d \<and> d < RETRY_UPDATE_SLEEP \<longrightarrow>
                  py_bool (priv_command_is_running (asyncio_sleep d s'))))"
    by blast
next
  show "\<exists>s'. send_and_receive query (Recv t (Inr (PStr (c # cs)))) s
              = Some (Inr \<lparr>data_result = PStr [c], data_sensors = []\<rparr>, s')
          \<and> priv_last_error s' = None \<and> priv_command_is_running s' = None"
    by (simp add: send_and_receive_def wait_idle_idle [OF idle]
        exchange_block_parse_ok [OF nonempty parse_result_string])
qed


text \<open>Claim C4, witness: a response with the token \<^verbatim>\<open>I005000x12\<close>, whose value suffix
  is \<^verbatim>\<open>x12\<close>, and the string literal \<^verbatim>\<open>I0\<close>.\<close>

theorem parse_failure_is_connection_error_witness:
  "(\<exists>s'. send_and_receive [PStr ''I'', PStr ''0'']
            (Recv ''['I', 0, 'I005000x12']''
               (Inr (PList [PStr ''I'', PInt 0, PStr ''I005000x12''])))
            (example_device [])
          = Some (Inl (DeviceConnectionError ValueError), s')
        \<and> priv_last_error s' = Some (DeviceConnectionError ValueError)
        \<and> now s' = now (example_device [])
        \<and> priv_command_is_running s' = Some (PList [PStr ''I'', PStr ''0''])
        \<and> (\<forall>d. RETRY_UPDATE_SLEEP \<le> d \<longrightarrow>
               priv_command_is_running (asyncio_sleep d s') = None)
        \<and> ([PStr ''I'', PStr ''0''] \<noteq> [] \<and> lazy_tasks (example_device []) = [] \<longrightarrow>
             (\<forall>d. 0 \<le> d \<and> d < RETRY_UPDATE_SLEEP \<longrightarrow>
                  py_bool (priv_command_is_running (asyncio_sleep d s')))))
    \<and> (\<exists>s'. send_and_receive [PStr ''I'', PStr ''0'']
                (Recv ''['I', 0, 'I005000x12']'' (Inr (PStr ''I0'')))
                (example_device [])
              = Some (Inr \<lparr>data_result = PStr ''I'', data_sensors = []\<rparr>, s')
          \<and> priv_last_error s' = None \<and> priv_command_is_running s' = None)"
proof -
  have bad: "int_of_str (drop 7 ''I005000x12'') = Inl ValueError"
    by (simp add: int_of_str_eval)
  have "\<exists>st rsv ts tok. Inr (PList [PStr ''I'', PInt 0, PStr ''I005000x12''])
          = (Inr (PList (st # rsv # map PStr ts)) :: exn + pyval) \<and> tok \<in> set ts
          \<and> 6 < length tok \<and> int_of_str (drop 7 tok) = Inl ValueError"
    using bad
    by (intro exI [where x = "PStr ''I''"] exI [where x = "PInt 0"]
        exI [where x = "[''I005000x12'']"] exI [where x = "''I005000x12''"]) simp
  then show ?thesis
    by (intro parse_failure_is_connection_error) (simp_all add: example_defs)
qed

text \<open>Claim C4, counterexample to the claim as stated: on an unterminated list literal,
  where \<^verbatim>\<open>ast.literal_eval\<close> raises \<^verbatim>\<open>SyntaxError\<close>, the error raised is a
  \<^verbatim>\<open>DeviceConnectionError\<close> and \<^verbatim>\<open>_command_is_running\<close> still holds the query; and on
  the string literal \<^verbatim>\<open>'abcdefghij'\<close>, which is no list literal, nothing is raised.\<close>

theorem malformed_literal_is_not_invalid_message:
  "send_and_receive [PStr ''I'', PStr ''0''] (Recv ''['I', 0, 'I00500'' (Inl SyntaxError))
     (example_device [])
   = Some (Inl (DeviceConnectionError SyntaxError),
           (example_device [])
             \<lparr>priv_last_error := Some (DeviceConnectionError SyntaxError),
              priv_command_is_running := Some (PList [PStr ''I'', PStr ''0'']),
              lazy_tasks := [5],
              exchanges := [(0, [PStr ''I'', PStr ''0''])]\<rparr>)
   \<and> send_and_receive [PStr ''I'', PStr ''0'']
       (Recv (CHR 0x27 # ''abcdefghij'' @ [CHR 0x27]) (Inr (PStr ''abcdefghij'')))
       (example_device [])
     = Some (Inr \<lparr>data_result = PStr ''a'', data_sensors = []\<rparr>,
             (example_device []) \<lparr>exchanges := [(0, [PStr ''I'', PStr ''0''])]\<rparr>)"
  by (simp add: send_and_receive_def wait_idle_idle exchange_block_def parse_result_def
      RETRY_UPDATE_SLEEP_def example_defs)

section \<open>Writing and reading sensors\<close>

lemma asyncio_sleep_sensors: "sensors (asyncio_sleep d s) = sensors s"
  by (simp add: asyncio_sleep_eq)

lemma wait_idle_sensors:
  assumes "wait_idle s = Some w"
  shows "sensors w = sensors s"
proof (rule wait_idle.raw_induct [where P = "\<lambda>s w. sensors w = sensors s", OF _ assms])
  fix f s w
  assume IH: "\<And>x y. f x = Some y \<Longrightarrow> sensors y = sensors x"
    and step: "(if py_bool (priv_command_is_running s) then f (asyncio_sleep 1 s) else Some s) = Some w"
  show "sensors w = sensors s"
  proof (cases "py_bool (priv_command_is_running s)")
    case True
    with step have "f (asyncio_sleep 1 s) = Some w" by simp
    then have "sensors w = sensors (asyncio_sleep 1 s)" by (rule IH)
    then show ?thesis by (simp add: asyncio_sleep_sensors)
  next
    case False
    with step show ?thesis by simp
  qed
qed

lemma exchange_block_sensors: "sensors (snd (exchange_block query x w)) = sensors w"
  by (simp add: exchange_block_def Let_def split: sum.splits)

lemma async_send_command_sensors:
  assumes "async_send_command command arg x s = Some (r, s')"
  shows "sensors s' = sensors s"
proof (cases "map_of (commands s) command")
  case None
  with assms show ?thesis by (simp add: async_send_command_def)
next
  case (Some base)
  from dispatch_result [OF Some assms] obtain w where "wait_idle s = Some w"
    and "s' = snd (exchange_block (build_query base arg) x w)"
    by blast
  then show ?thesis by (simp add: exchange_block_sensors wait_idle_sensors)
qed

text \<open>
  Claim C7. On a device that has its dict of sensors: when the id is no key of it, or
  its entry has the type \<^verbatim>\<open>J\<close>, \<^verbatim>\<open>async_set_state\<close> raises \<^verbatim>\<open>AttributeError\<close> and the
  device is unchanged, so no exchange is logged; when the entry is writable and the
  \<^verbatim>\<open>set\<close> command returns (the device acknowledged it), \<^verbatim>\<open>async_set_state\<close> returns
  \<^verbatim>\<open>True\<close> and the entry's value is the value written, whatever value was echoed.
\<close>

theorem write_guards_and_optimistic_update:
  assumes "sensors s = Some m"
  shows "(map_of m attr = None \<longrightarrow> async_set_state attr v x s = Some (Inl AttributeError, s))
    \<and> (\<forall>e. map_of m attr = Some e \<and> sensor_type e = ''J'' \<longrightarrow>
          async_set_state attr v x s = Some (Inl AttributeError, s))
    \<and> (\<forall>e r s1. map_of m attr = Some e \<and> sensor_type e \<noteq> ''J''
          \<and> async_send_command ''set'' (Some [PStr (token (CHR ''B'') attr v)]) x s
              = Some (Inr r, s1) \<longrightarrow>
          async_set_state attr v x s
            = Some (Inr True,
                    s1\<lparr>sensors := Some (AList.update attr (e\<lparr>sensor_value := v\<rparr>) m)\<rparr>)
          \<and> map_of (AList.update attr (e\<lparr>sensor_value := v\<rparr>) m) attr
              = Some (e\<lparr>sensor_value := v\<rparr>))"
proof (intro conjI allI impI)
  assume "map_of m attr = None"
  with assms show "async_set_state attr v x s = Some (Inl AttributeError, s)"
    by (simp add: async_set_state_def)
next
  fix e
  assume "map_of m attr = Some e \<and> sensor_type e = ''J''"
  with assms show "async_set_state attr v x s = Some (Inl AttributeError, s)"
    by (simp add: async_set_state_def)
next
  fix e r s1
  assume a: "map_of m attr = Some e \<and> sensor_type e \<noteq> ''J''
          \<and> async_send_command ''set'' (Some [PStr (token (CHR ''B'') attr v)]) x s
              = Some (Inr r, s1)"
  then have "async_send_command ''set'' (Some [PStr (token (CHR ''B'') attr v)]) x s
              = Some (Inr r, s1)"
    by simp
  then have "sensors s1 = sensors s" by (rule async_send_command_sensors)
  then have "sensors s1 = Some m" using assms by simp
  with a assms show "async_set_state attr v x s
            = Some (Inr True,
                    s1\<lparr>sensors := Some (AList.update attr (e\<lparr>sensor_value := v\<rparr>) m)\<rparr>)"
    by (simp add: async_set_state_def)
next
  fix e :: entry and r :: cmd_result and s1 :: device
  show "map_of (AList.update attr (e\<lparr>sensor_value := v\<rparr>) m) attr
              = Some (e\<lparr>sensor_value := v\<rparr>)"
    by (simp add: update_conv')
qed

lemmas dispatch_eval = async_send_command_def send_and_receive_def wait_idle_idle
  exchange_block_def parse_result_def build_query_def bindE_def andE_def validate_def
  set_ack_def control_ack_def first_sensor_def dict_eq_str_def except_DeviceConnectionError_def
  INFO_COMMAND_def GET_COMMAND_def SET_COMMAND_def ON_COMMAND_def OFF_COMMAND_def
  UNBLOCK_COMMAND_def

text \<open>Claim C7, witness: the value \<open>100000000042\<close> is written to a sensor of type
  \<^verbatim>\<open>I\<close>; the acknowledgement echoes \<open>42\<close>, and the cached value is the one written.\<close>

theorem write_guards_and_optimistic_update_witness:
  "async_set_state ''00300'' 100000000042
     (Recv ''['A', 0, 'A003000000000000042']''
        (Inr (PList [PStr ''A'', PInt 0, PStr ''A003000000000000042''])))
     (example_device [(''00300'', \<lparr>sensor_type = ''I'', sensor_value = 0, sensor_id = None\<rparr>)])
   = Some (Inr True,
       (example_device
          [(''00300'', \<lparr>sensor_type = ''I'', sensor_value = 100000000042, sensor_id = None\<rparr>)])
         \<lparr>exchanges := [(0, [PStr ''A'', PStr ''0'', PStr ''B00300100000000042''])]\<rparr>)"
proof -
  define dev where "dev = example_device
    [(''00300'', \<lparr>sensor_type = ''I'', sensor_value = 0, sensor_id = None\<rparr>)]"
  have sens: "sensors dev
      = Some [(''00300'', \<lparr>sensor_type = ''I'', sensor_value = 0, sensor_id = None\<rparr>)]"
    by (simp add: dev_def example_defs)
  have send: "async_send_command ''set''
       (Some [PStr (token (CHR ''B'') ''00300'' 100000000042)])
       (Recv ''['A', 0, 'A003000000000000042']''
          (Inr (PList [PStr ''A'', PInt 0, PStr ''A003000000000000042''])))
       dev
     = Some (Inr PyTrue,
         dev\<lparr>exchanges := [(0, [PStr ''A'', PStr ''0'', PStr ''B00300100000000042''])]\<rparr>)"
    by (simp add: dispatch_eval token_B_example int_of_str_42 int_of_str_0042 dev_def
        example_defs)
  show ?thesis
    using write_guards_and_optimistic_update [OF sens, of "''00300''" 100000000042
        "Recv ''['A', 0, 'A003000000000000042']''
          (Inr (PList [PStr ''A'', PInt 0, PStr ''A003000000000000042'']))"] send
    by (simp add: dev_def example_defs)
qed

text \<open>
  Claim C2, the code at the failing input: a refresh whose response has the unknown
  status \<^verbatim>\<open>X\<close> merges the reading of the response into the sensors.
\<close>

theorem unknown_status_is_merged:
  "async_update_data [PStr ''I'']
     (Recv ''['X', 0, 'I007000000000000009']''
        (Inr (PList [PStr ''X'', PInt 0, PStr ''I007000000000000009''])))
     (Raises OSError)
     (example_device [(''00500'', \<lparr>sensor_type = ''I'', sensor_value = 1, sensor_id = None\<rparr>)])
   = Some (Inr (),
       (example_device
          [(''00500'', \<lparr>sensor_type = ''I'', sensor_value = 1, sensor_id = None\<rparr>),
           (''00700'', \<lparr>sensor_type = ''I'', sensor_value = 9, sensor_id = None\<rparr>)])
         \<lparr>exchanges := [(0, [PStr ''I''])]\<rparr>)"
  by (simp add: async_update_data_def send_and_receive_def wait_idle_idle exchange_block_def
      parse_result_def int_of_str_009 RESULT_ERROR_def RESULT_INFO_def RESULT_OK_def
      example_defs)

text \<open>
  Claim C6, the code at the failing input: reading the single id \<^verbatim>\<open>00500\<close>, a key of
  the sensors, raises \<^verbatim>\<open>AttributeError\<close> before any exchange, because the second
  guard looks up each character of the string.
\<close>

theorem read_of_single_known_id_fails:
  "async_get_state (AttrStr ''00500'') x
     (example_device [(''00500'', \<lparr>sensor_type = ''I'', sensor_value = 1, sensor_id = None\<rparr>)])
   = Some (Inl AttributeError,
       example_device [(''00500'', \<lparr>sensor_type = ''I'', sensor_value = 1, sensor_id = None\<rparr>)])"
  by (simp add: async_get_state_def get_guards_def py_in_def bindE_def example_defs)

text \<open>
  Claim C9. While \<^verbatim>\<open>initialized\<close> is false, the properties \<^verbatim>\<open>status\<close>,
  \<^verbatim>\<open>settings\<close>, \<^verbatim>\<open>model\<close>, \<^verbatim>\<open>serial\<close>, \<^verbatim>\<open>manufacturer\<close> and \<^verbatim>\<open>attributes\<close>, the
  method \<^verbatim>\<open>info\<close> and \<^verbatim>\<open>__getattr__\<close> return \<^verbatim>\<open>None\<close> without raising, for every
  argument.
\<close>

theorem accessors_before_initialize:
  assumes "\<not> initialized s"
  shows "status device_state_sensor states_off s = Inr None
    \<and> settings s = None
    \<and> model s = Inr None
    \<and> serial s = Inr None
    \<and> manufacturer s = Inr None
    \<and> attributes s = None
    \<and> info s attr = Inr None
    \<and> py_getattr s attr = Inr None"
  using assms
  by (simp add: status_def settings_def model_def serial_def manufacturer_def attributes_def
      info_def py_getattr_def)

text \<open>Claim C9, witness: the device as \<^verbatim>\<open>__init__\<close> leaves it.\<close>

theorem accessors_before_initialize_witness:
  "status ''30001'' [Some 0] (new_device example_commands) = Inr None
    \<and> settings (new_device example_commands) = None
    \<and> model (new_device example_commands) = Inr None
    \<and> serial (new_device example_commands) = Inr None
    \<and> manufacturer (new_device example_commands) = Inr None
    \<and> attributes (new_device example_commands) = None
    \<and> info (new_device example_commands) ''00500'' = Inr None
    \<and> py_getattr (new_device example_commands) ''00500'' = Inr None"
  by (rule accessors_before_initialize) (simp add: new_device_def)

end
